theory Spec2Isabelle
  imports Complex_Main "HOL-Library.Word"
begin

unbundle bit_operations_syntax

section \<open>Scene writer: \<open>gp_write_scene\<close>\<close>

text \<open>
  The preprocessor lays a scene out in one heap buffer and writes that buffer to the
  output file. Memory is modelled bytewise: a pointer is the function from byte offsets
  to the bytes found there, \<open>memcpy\<close> overwrites a range of the destination, and
  a scalar is copied in its in-memory (little-endian) form. The integers are the C ones:
  \<open>uint32_t\<close> counts and \<open>uint64_t\<close> offsets and sizes, with \<open>size_t\<close> 64 bits
  wide, so the products \<open>count * sizeof(T)\<close> are computed with 64 bits.
\<close>

type_synonym byte = "8 word"
type_synonym mem = "nat \<Rightarrow> byte"

definition memcpy :: "mem \<Rightarrow> nat \<Rightarrow> mem \<Rightarrow> nat \<Rightarrow> mem" where
  "memcpy dst off src n = (\<lambda>i. if off \<le> i \<and> i < off + n then src (i - off) else dst i)"

definition le_byte :: "'a::len word \<Rightarrow> nat \<Rightarrow> byte" where
  "le_byte w k = ucast (drop_bit (8 * k) w)"

text \<open>Reading a little-endian scalar of \<open>n\<close> bytes back from memory.\<close>

fun read_le :: "mem \<Rightarrow> nat \<Rightarrow> nat \<Rightarrow> 'a::len word" where
  "read_le m off 0 = 0"
| "read_le m off (Suc n) = ucast (m off) OR push_bit 8 (read_le m (Suc off) n)"

definition file_u64 :: "byte list \<Rightarrow> nat \<Rightarrow> 64 word" where
  "file_u64 f off = read_le (\<lambda>i. f ! i) off 8"

record program_options =
  image_width :: "32 word"
  image_height :: "32 word"

text \<open>A \<open>gp_vertex\<close>: \<open>pos[3]\<close>, \<open>norm[3]\<close>, \<open>uv[2]\<close>, each float kept as its 32 bits.\<close>

record gp_vertex =
  pos :: "32 word list"
  norm :: "32 word list"
  uv :: "32 word list"

text \<open>
  A \<open>gp_scene\<close> with its \<open>gp_bvhcc\<close> inlined. The arrays of nodes, faces and materials
  and the two structs \<open>aabb\<close> and \<open>camera\<close> are only ever copied as raw memory, so they
  are the memory found at their addresses.
\<close>

record gp_scene =
  node_count :: "32 word"
  nodes :: mem
  aabb :: mem
  camera :: mem
  face_count :: "32 word"
  faces :: mem
  material_count :: "32 word"
  materials :: mem
  vertex_count :: "32 word"
  vertices :: "nat \<Rightarrow> gp_vertex"

text \<open>
  Modelled from the spec: the headers \<open>gp.h\<close> and \<open>bvh_compress.h\<close> that declare
  \<open>gp_bvhcc_node\<close>, \<open>gp_face\<close>, \<open>gp_vertex\<close>, \<open>gp_material\<close> and \<open>gp_aabb\<close>
  are missing; their sizes are the ones the file format fixes (80, 16, 32, 32 and 24
  bytes). \<open>gp_camera\<close> is declared in the source: ten floats.
\<close>

definition sizeof_gp_bvhcc_node :: "64 word" where "sizeof_gp_bvhcc_node = 80"
definition sizeof_gp_face :: "64 word" where "sizeof_gp_face = 16"
definition sizeof_gp_vertex :: "64 word" where "sizeof_gp_vertex = 32"
definition sizeof_gp_material :: "64 word" where "sizeof_gp_material = 32"
definition sizeof_gp_aabb :: nat where "sizeof_gp_aabb = 24"
definition sizeof_gp_camera :: nat where "sizeof_gp_camera = 40"

text \<open>The local constants of \<open>gp_write_scene\<close>, in the order of the source.\<close>

definition header_size :: "64 word" where
  "header_size = 256"

definition node_buf_offset :: "64 word" where
  "node_buf_offset = header_size"

definition node_buf_size :: "gp_scene \<Rightarrow> 64 word" where
  "node_buf_size scene = ucast (node_count scene) * sizeof_gp_bvhcc_node"

definition face_buf_offset :: "gp_scene \<Rightarrow> 64 word" where
  "face_buf_offset scene = node_buf_offset + node_buf_size scene"

definition face_buf_size :: "gp_scene \<Rightarrow> 64 word" where
  "face_buf_size scene = ucast (face_count scene) * sizeof_gp_face"

definition vertex_buf_offset :: "gp_scene \<Rightarrow> 64 word" where
  "vertex_buf_offset scene = face_buf_offset scene + face_buf_size scene"

definition vertex_buf_size :: "gp_scene \<Rightarrow> 64 word" where
  "vertex_buf_size scene = ucast (vertex_count scene) * sizeof_gp_vertex"

definition material_buf_offset :: "gp_scene \<Rightarrow> 64 word" where
  "material_buf_offset scene = vertex_buf_offset scene + vertex_buf_size scene"

definition material_buf_size :: "gp_scene \<Rightarrow> 64 word" where
  "material_buf_size scene = ucast (material_count scene) * sizeof_gp_material"

definition file_size :: "gp_scene \<Rightarrow> 64 word" where
  "file_size scene = material_buf_offset scene + material_buf_size scene"

text \<open>The twelve header copies, at the fixed offsets 0 to 96.\<close>

definition write_header :: "program_options \<Rightarrow> gp_scene \<Rightarrow> mem \<Rightarrow> mem" where
  "write_header options scene buffer =
    (let buffer = memcpy buffer 0 (le_byte (image_width options)) 4;
         buffer = memcpy buffer 4 (le_byte (image_height options)) 4;
         buffer = memcpy buffer 8 (le_byte node_buf_offset) 8;
         buffer = memcpy buffer 16 (le_byte (node_buf_size scene)) 8;
         buffer = memcpy buffer 24 (le_byte (face_buf_offset scene)) 8;
         buffer = memcpy buffer 32 (le_byte (face_buf_size scene)) 8;
         buffer = memcpy buffer 40 (le_byte (vertex_buf_offset scene)) 8;
         buffer = memcpy buffer 48 (le_byte (vertex_buf_size scene)) 8;
         buffer = memcpy buffer 56 (le_byte (material_buf_offset scene)) 8;
         buffer = memcpy buffer 64 (le_byte (material_buf_size scene)) 8;
         buffer = memcpy buffer 72 (aabb scene) sizeof_gp_aabb;
         buffer = memcpy buffer 96 (camera scene) sizeof_gp_camera
     in buffer)"

text \<open>
  One round of the vertex loop. The index \<open>i\<close> is a \<open>uint32_t\<close> and \<open>i * 32\<close> is
  computed with 32 bits before it is added to the 64-bit offset.
\<close>

definition write_vertex :: "gp_scene \<Rightarrow> nat \<Rightarrow> mem \<Rightarrow> mem" where
  "write_vertex scene i buffer =
    (let ptr = unat (vertex_buf_offset scene + ucast ((word_of_nat i :: 32 word) * 32));
         v = vertices scene i;
         buffer = memcpy buffer (ptr + 0) (le_byte (pos v ! 0)) 4;
         buffer = memcpy buffer (ptr + 4) (le_byte (pos v ! 1)) 4;
         buffer = memcpy buffer (ptr + 8) (le_byte (pos v ! 2)) 4;
         buffer = memcpy buffer (ptr + 12) (le_byte (uv v ! 0)) 4;
         buffer = memcpy buffer (ptr + 16) (le_byte (norm v ! 0)) 4;
         buffer = memcpy buffer (ptr + 20) (le_byte (norm v ! 1)) 4;
         buffer = memcpy buffer (ptr + 24) (le_byte (norm v ! 2)) 4;
         buffer = memcpy buffer (ptr + 28) (le_byte (uv v ! 1)) 4
     in buffer)"

text \<open>
  \<open>gp_write_scene\<close>: the buffer comes from \<open>malloc\<close>, which does not initialise it, so
  its first contents \<open>heap\<close> are an input of the model. The result is the content of
  the written file, the first \<open>file_size\<close> bytes of the buffer.
\<close>

definition gp_write_scene :: "program_options \<Rightarrow> gp_scene \<Rightarrow> mem \<Rightarrow> byte list" where
  "gp_write_scene options scene heap =
    (let buffer = heap;
         buffer = write_header options scene buffer;
         buffer = memcpy buffer (unat node_buf_offset) (nodes scene) (unat (node_buf_size scene));
         buffer = memcpy buffer (unat (face_buf_offset scene)) (faces scene)
                    (unat (face_buf_size scene));
         buffer = fold (write_vertex scene) [0..<unat (vertex_count scene)] buffer;
         buffer = memcpy buffer (unat (material_buf_offset scene)) (materials scene)
                    (unat (material_buf_size scene))
     in map buffer [0..<unat (file_size scene)])"

subsection \<open>Little-endian scalars\<close>

lemma bit_read_le:
  "bit (read_le m off n :: 'a::len word) i \<longleftrightarrow>
     i < LENGTH('a) \<and> i div 8 < n \<and> bit (m (off + i div 8)) (i mod 8)"
proof (induction n arbitrary: off i)
  case 0
  then show ?case by simp
next
  case (Suc n)
  show ?case
  proof (cases "i < 8")
    case True
    then show ?thesis by (auto simp: bit_simps Suc dest: bit_imp_le_length)
  next
    case False
    then have "(i - 8) div 8 = i div 8 - 1" "(i - 8) mod 8 = i mod 8" "i div 8 > 0"
      by (simp_all add: le_div_geq le_mod_geq)
    with False show ?thesis
      by (auto simp: bit_simps Suc dest: bit_imp_le_length) linarith+
  qed
qed

lemma read_le_le_byte:
  assumes "LENGTH('a::len) \<le> 8 * n" and "\<And>k. k < n \<Longrightarrow> m (off + k) = le_byte (w :: 'a word) k"
  shows "read_le m off n = w"
proof (rule bit_word_eqI)
  fix i
  assume i: "i < LENGTH('a)"
  with assms(1) have d: "i div 8 < n"
    by (simp add: less_mult_imp_div_less mult.commute)
  have "8 * (i div 8) + i mod 8 = i"
    by simp
  with i d show "bit (read_le m off n :: 'a word) i = bit w i"
    by (simp add: bit_read_le assms(2) le_byte_def bit_simps)
qed

subsection \<open>Offsets and sizes do not wrap\<close>

lemma unat_count_mult:
  fixes c :: "32 word" and k :: "64 word"
  assumes "unat k \<le> 2 ^ 16"
  shows "unat (ucast c * k) = unat c * unat k"
proof -
  have c: "unat c < 2 ^ 32"
    using unsigned_less [of c, where ?'a = nat] by simp
  have u: "unat (ucast c :: 64 word) = unat c"
    using c by (simp add: unsigned_ucast_eq take_bit_nat_eq_self)
  have "unat c * unat k \<le> 2 ^ 32 * 2 ^ 16"
    using c assms by (intro mult_mono) simp_all
  then have "unat c * unat k < 2 ^ 64"
    by simp
  then show ?thesis
    by (simp add: unat_word_ariths u)
qed

lemma unat_node_buf_size: "unat (node_buf_size scene) = unat (node_count scene) * 80"
  by (simp add: node_buf_size_def sizeof_gp_bvhcc_node_def unat_count_mult)

lemma unat_face_buf_size: "unat (face_buf_size scene) = unat (face_count scene) * 16"
  by (simp add: face_buf_size_def sizeof_gp_face_def unat_count_mult)

lemma unat_vertex_buf_size: "unat (vertex_buf_size scene) = unat (vertex_count scene) * 32"
  by (simp add: vertex_buf_size_def sizeof_gp_vertex_def unat_count_mult)

lemma unat_material_buf_size: "unat (material_buf_size scene) = unat (material_count scene) * 32"
  by (simp add: material_buf_size_def sizeof_gp_material_def unat_count_mult)

lemma unat_count_bound: "unat (c :: 32 word) < 2 ^ 32"
  using unsigned_less [of c, where ?'a = nat] by simp

lemma unat_face_buf_offset:
  "unat (face_buf_offset scene) = 256 + unat (node_count scene) * 80"
  using unat_count_bound [of "node_count scene"]
  by (simp add: face_buf_offset_def node_buf_offset_def header_size_def unat_word_ariths unat_node_buf_size)

lemma unat_vertex_buf_offset:
  "unat (vertex_buf_offset scene) = 256 + unat (node_count scene) * 80 + unat (face_count scene) * 16"
  using unat_count_bound [of "node_count scene"] unat_count_bound [of "face_count scene"]
  by (simp add: vertex_buf_offset_def unat_word_ariths unat_face_buf_offset unat_face_buf_size)

lemma unat_material_buf_offset:
  "unat (material_buf_offset scene) = 256 + unat (node_count scene) * 80 + unat (face_count scene) * 16
     + unat (vertex_count scene) * 32"
  using unat_count_bound [of "node_count scene"] unat_count_bound [of "face_count scene"]
    unat_count_bound [of "vertex_count scene"]
  by (simp add: material_buf_offset_def unat_word_ariths unat_vertex_buf_offset unat_vertex_buf_size)

lemma unat_file_size:
  "unat (file_size scene) = 256 + unat (node_count scene) * 80 + unat (face_count scene) * 16
     + unat (vertex_count scene) * 32 + unat (material_count scene) * 32"
  using unat_count_bound [of "node_count scene"] unat_count_bound [of "face_count scene"]
    unat_count_bound [of "vertex_count scene"] unat_count_bound [of "material_count scene"]
  by (simp add: file_size_def unat_word_ariths unat_material_buf_offset unat_material_buf_size)

lemma memcpy_outside: "i < off \<or> off + n \<le> i \<Longrightarrow> memcpy dst off src n i = dst i"
  by (auto simp: memcpy_def)

lemma memcpy_inside: "off \<le> i \<Longrightarrow> i < off + n \<Longrightarrow> memcpy dst off src n i = src (i - off)"
  by (simp add: memcpy_def)

lemma write_vertex_ptr_ge: 
  "256 \<le> unat (vertex_buf_offset scene + ucast ((word_of_nat i :: 32 word) * 32))"
proof -
  have "unat (ucast ((word_of_nat i :: 32 word) * 32) :: 64 word) < 2 ^ 32"
    using unat_count_bound [of "(word_of_nat i :: 32 word) * 32"]
    by (simp add: unsigned_ucast_eq take_bit_nat_eq_self)
  then show ?thesis
    using unat_count_bound [of "node_count scene"] unat_count_bound [of "face_count scene"]
    by (simp add: unat_word_ariths unat_vertex_buf_offset)
qed

lemma write_vertex_low: "j < 256 \<Longrightarrow> write_vertex scene i buffer j = buffer j"
  using write_vertex_ptr_ge [of scene i]
  by (simp add: write_vertex_def Let_def memcpy_outside)

lemma fold_write_vertex_low: "j < 256 \<Longrightarrow> fold (write_vertex scene) is buffer j = buffer j"
  by (induction "is" arbitrary: buffer) (simp_all add: write_vertex_low)

lemma buffers_low:
  assumes "j < 256"
  shows "gp_write_scene options scene heap ! j = write_header options scene heap j"
proof -
  have "j < unat (file_size scene)"
    using assms by (simp add: unat_file_size)
  then show ?thesis
    using assms
    by (simp add: gp_write_scene_def Let_def memcpy_outside fold_write_vertex_low
        unat_material_buf_offset unat_face_buf_offset node_buf_offset_def header_size_def)
qed

lemma write_header_fields:
  assumes "k < 8"
  shows "write_header options scene heap (8 + k) = le_byte node_buf_offset k"
    and "write_header options scene heap (16 + k) = le_byte (node_buf_size scene) k"
    and "write_header options scene heap (24 + k) = le_byte (face_buf_offset scene) k"
    and "write_header options scene heap (32 + k) = le_byte (face_buf_size scene) k"
    and "write_header options scene heap (40 + k) = le_byte (vertex_buf_offset scene) k"
    and "write_header options scene heap (48 + k) = le_byte (vertex_buf_size scene) k"
    and "write_header options scene heap (56 + k) = le_byte (material_buf_offset scene) k"
    and "write_header options scene heap (64 + k) = le_byte (material_buf_size scene) k"
  using assms
  by (simp_all add: write_header_def Let_def memcpy_def sizeof_gp_aabb_def sizeof_gp_camera_def)

lemma write_header_reserved:
  "136 \<le> j \<Longrightarrow> write_header options scene heap j = heap j"
  by (simp add: write_header_def Let_def memcpy_def sizeof_gp_aabb_def sizeof_gp_camera_def)

lemma file_u64_fields:
  fixes options scene heap
  defines "f \<equiv> gp_write_scene options scene heap"
  shows "file_u64 f 8 = node_buf_offset"
    and "file_u64 f 16 = node_buf_size scene"
    and "file_u64 f 24 = face_buf_offset scene"
    and "file_u64 f 32 = face_buf_size scene"
    and "file_u64 f 40 = vertex_buf_offset scene"
    and "file_u64 f 48 = vertex_buf_size scene"
    and "file_u64 f 56 = material_buf_offset scene"
    and "file_u64 f 64 = material_buf_size scene"
  unfolding file_u64_def f_def
  by (rule read_le_le_byte, simp, simp add: buffers_low write_header_fields)+

lemma length_gp_write_scene:
  "length (gp_write_scene options scene heap) = unat (file_size scene)"
  by (simp add: gp_write_scene_def Let_def)

text \<open>
  Claim C5. In every file that \<open>gp_write_scene\<close> produces, the header fields read back
  from the file satisfy: the node offset is 256; each offset plus its size is the next
  offset, and the material offset plus the material size is the length of the file; each
  size is the element count times the element size (80, 16, 32, 32). None of the sums
  wraps around.
\<close>

theorem gp_write_scene_header_offsets:
  "file_u64 (gp_write_scene options scene heap) 8 = 256
   \<and> unat (file_u64 (gp_write_scene options scene heap) 8)
       + unat (file_u64 (gp_write_scene options scene heap) 16)
     = unat (file_u64 (gp_write_scene options scene heap) 24)
   \<and> unat (file_u64 (gp_write_scene options scene heap) 24)
       + unat (file_u64 (gp_write_scene options scene heap) 32)
     = unat (file_u64 (gp_write_scene options scene heap) 40)
   \<and> unat (file_u64 (gp_write_scene options scene heap) 40)
       + unat (file_u64 (gp_write_scene options scene heap) 48)
     = unat (file_u64 (gp_write_scene options scene heap) 56)
   \<and> unat (file_u64 (gp_write_scene options scene heap) 56)
       + unat (file_u64 (gp_write_scene options scene heap) 64)
     = length (gp_write_scene options scene heap)
   \<and> unat (file_u64 (gp_write_scene options scene heap) 16) = unat (node_count scene) * 80
   \<and> unat (file_u64 (gp_write_scene options scene heap) 32) = unat (face_count scene) * 16
   \<and> unat (file_u64 (gp_write_scene options scene heap) 48) = unat (vertex_count scene) * 32
   \<and> unat (file_u64 (gp_write_scene options scene heap) 64) = unat (material_count scene) * 32"
  by (simp add: file_u64_fields length_gp_write_scene unat_node_buf_size unat_face_buf_size
      unat_vertex_buf_size unat_material_buf_size unat_face_buf_offset unat_vertex_buf_offset
      unat_material_buf_offset unat_file_size node_buf_offset_def header_size_def)

text \<open>
  Claim C6, as the code has it. \<open>gp_write_scene\<close> never writes the header bytes 136 to
  255: in the file they hold what the buffer held when \<open>malloc\<close> returned it, which need
  not be zero.
\<close>

theorem gp_write_scene_reserved_unwritten:
  "136 \<le> j \<Longrightarrow> j < 256 \<Longrightarrow> gp_write_scene options scene heap ! j = heap j"
  by (simp add: buffers_low write_header_reserved)

theorem gp_write_scene_reserved_unwritten_witness:
  "(136 :: nat) \<le> 136 \<and> (136 :: nat) < 256
   \<and> gp_write_scene \<lparr>image_width = 1200, image_height = 1200\<rparr>
        \<lparr>node_count = 0, nodes = nth [], aabb = nth (replicate 24 0),
         camera = nth (replicate 40 0), face_count = 0, faces = nth [], material_count = 0,
         materials = nth [], vertex_count = 0, vertices = nth []\<rparr>
        (nth (replicate 256 205)) ! 136 = 205"
  using gp_write_scene_reserved_unwritten [of 136 "\<lparr>image_width = 1200, image_height = 1200\<rparr>"
      "\<lparr>node_count = 0, nodes = nth [], aabb = nth (replicate 24 0),
         camera = nth (replicate 40 0), face_count = 0, faces = nth [], material_count = 0,
         materials = nth [], vertex_count = 0, vertices = nth []\<rparr>" "nth (replicate 256 205)"]
  by simp

text \<open>
  The empty scene written into a buffer whose bytes were all \<open>0xCD\<close>: the reserved byte
  at offset 136 of the file is \<open>0xCD\<close>, not zero.
\<close>

theorem gp_write_scene_reserved_counterexample:
  "gp_write_scene \<lparr>image_width = 1200, image_height = 1200\<rparr>
        \<lparr>node_count = 0, nodes = nth [], aabb = nth (replicate 24 0),
         camera = nth (replicate 40 0), face_count = 0, faces = nth [], material_count = 0,
         materials = nth [], vertex_count = 0, vertices = nth []\<rparr>
        (nth (replicate 256 205)) ! 136 \<noteq> 0"
  by (simp add: gp_write_scene_def Let_def file_size_def material_buf_offset_def
      material_buf_size_def vertex_buf_offset_def vertex_buf_size_def face_buf_offset_def
      face_buf_size_def node_buf_offset_def node_buf_size_def header_size_def memcpy_def
      write_header_def sizeof_gp_aabb_def sizeof_gp_camera_def)

section \<open>Render pass: \<open>HdGatlingRenderPass::_Execute\<close>\<close>

text \<open>
  The members of the render pass that \<open>_Execute\<close> reads and writes. The two caches
  are pointers; the model keeps whether they are non-null.
\<close>

record render_pass =
  m_isConverged :: bool
  m_lastSceneStateVersion :: "32 word"
  m_lastSprimIndexVersion :: "32 word"
  m_lastRenderSettingsVersion :: "32 word"
  m_lastVisChangeCount :: "32 word"
  m_lastAovId :: nat
  m_shaderCache :: bool
  m_geomCache :: bool

text \<open>
  What one call of \<open>_Execute\<close> reads from its surroundings: the render pass state
  (camera, AOV bindings, format of the render buffer), the four counters of the change
  tracker and the render delegate, the AOV id, and the answers of the renderer library.
\<close>

record frame =
  has_camera :: bool
  aovBindings_empty :: bool
  aovBinding_supported :: bool
  format_is_Float32Vec4 :: bool
  sceneStateVersion :: "32 word"
  sprimIndexVersion :: "32 word"
  visibilityChangeCount :: "32 word"
  renderSettingsStateVersion :: "32 word"
  aovId :: nat
  giShaderCacheNeedsRebuild :: bool
  giGeomCacheNeedsRebuild :: bool
  giCreateShaderCache_ok :: bool
  giCreateGeomCache_ok :: bool

text \<open>The calls into the renderer library, in the order they are made.\<close>

datatype gi_call =
  giInvalidateFramebuffer
  | BakeMeshes
  | giDestroyShaderCache
  | giCreateShaderCache
  | giDestroyGeomCache
  | giCreateGeomCache
  | giRender

text \<open>The block guarded by \<open>rebuildShaderCache || rebuildGeomCache\<close>.\<close>

definition rebuild_caches ::
  "frame \<Rightarrow> bool \<Rightarrow> bool \<Rightarrow> render_pass \<times> gi_call list \<Rightarrow> render_pass \<times> gi_call list" where
  "rebuild_caches fr rebuildShaderCache rebuildGeomCache st =
    (let (rp, calls) = st;
         calls = calls @ [BakeMeshes];
         (rp, calls) =
           (if rebuildShaderCache
            then (rp\<lparr>m_shaderCache := giCreateShaderCache_ok fr\<rparr>,
                  calls @ (if m_shaderCache rp then [giDestroyShaderCache] else [])
                        @ [giCreateShaderCache])
            else (rp, calls))
     in if m_shaderCache rp \<and> (rebuildGeomCache \<or> giGeomCacheNeedsRebuild fr)
        then (rp\<lparr>m_geomCache := giCreateGeomCache_ok fr\<rparr>,
              calls @ (if m_geomCache rp then [giDestroyGeomCache] else [])
                    @ [giCreateGeomCache])
        else (rp, calls))"

definition Execute :: "render_pass \<Rightarrow> frame \<Rightarrow> render_pass \<times> gi_call list" where
  "Execute rp0 fr =
    (let rp = rp0\<lparr>m_isConverged := False\<rparr> in
     if \<not> has_camera fr then (rp, [])
     else if aovBindings_empty fr then (rp, [])
     else if \<not> aovBinding_supported fr then (rp, [])
     else if \<not> format_is_Float32Vec4 fr then (rp, [])
     else
       let sceneChanged = (sceneStateVersion fr \<noteq> m_lastSceneStateVersion rp);
           renderSettingsChanged =
             (renderSettingsStateVersion fr \<noteq> m_lastRenderSettingsVersion rp);
           visibilityChanged = (m_lastVisChangeCount rp \<noteq> visibilityChangeCount fr);
           aovChanged = (aovId fr \<noteq> m_lastAovId rp);
           calls = (if sceneChanged \<or> renderSettingsChanged \<or> visibilityChanged \<or> aovChanged
                    then [giInvalidateFramebuffer] else []);
           rp = rp\<lparr>m_lastSceneStateVersion := sceneStateVersion fr,
                   m_lastSprimIndexVersion := sprimIndexVersion fr,
                   m_lastRenderSettingsVersion := renderSettingsStateVersion fr,
                   m_lastVisChangeCount := visibilityChangeCount fr,
                   m_lastAovId := aovId fr\<rparr>;
           rebuildShaderCache = (\<not> m_shaderCache rp \<or> aovChanged
                                 \<or> giShaderCacheNeedsRebuild fr \<or> renderSettingsChanged);
           rebuildGeomCache = (\<not> m_geomCache rp \<or> visibilityChanged);
           (rp, calls) =
             (if rebuildShaderCache \<or> rebuildGeomCache
              then rebuild_caches fr rebuildShaderCache rebuildGeomCache (rp, calls)
              else (rp, calls))
       in if \<not> m_geomCache rp \<or> \<not> m_shaderCache rp then (rp, calls)
          else (rp\<lparr>m_isConverged := True\<rparr>, calls @ [giRender]))"

text \<open>
  When a frame gets as far as reading the counters, the framebuffer is invalidated
  exactly when the scene-state, render-settings or visibility counter or the AOV id
  differs from the remembered one. The sprim-index counter is read and remembered but
  takes no part in the decision.
\<close>

lemma rebuild_caches_keeps_invalidate:
  "giInvalidateFramebuffer \<in> set (snd (rebuild_caches fr a b (rp, calls)))
     \<longleftrightarrow> giInvalidateFramebuffer \<in> set calls"
  by (simp add: rebuild_caches_def Let_def split: prod.splits)

lemma Execute_invalidates_iff:
  assumes "has_camera fr" "\<not> aovBindings_empty fr" "aovBinding_supported fr"
    "format_is_Float32Vec4 fr"
  shows "giInvalidateFramebuffer \<in> set (snd (Execute rp fr)) \<longleftrightarrow>
    sceneStateVersion fr \<noteq> m_lastSceneStateVersion rp
    \<or> renderSettingsStateVersion fr \<noteq> m_lastRenderSettingsVersion rp
    \<or> visibilityChangeCount fr \<noteq> m_lastVisChangeCount rp
    \<or> aovId fr \<noteq> m_lastAovId rp"
  using assms
  by (auto simp: Execute_def Let_def rebuild_caches_keeps_invalidate split: prod.splits if_splits
      dest: arg_cong [where f = "\<lambda>p. giInvalidateFramebuffer \<in> set (snd p)"])

text \<open>
  A render pass that has rendered before (both caches built, every remembered counter
  1), and a frame whose counters differ from the remembered ones in the sprim-index
  version only.
\<close>

definition rendered_pass :: render_pass where
  "rendered_pass =
    \<lparr>m_isConverged = True, m_lastSceneStateVersion = 1, m_lastSprimIndexVersion = 1,
     m_lastRenderSettingsVersion = 1, m_lastVisChangeCount = 1, m_lastAovId = 0,
     m_shaderCache = True, m_geomCache = True\<rparr>"

definition sprim_changed_frame :: frame where
  "sprim_changed_frame =
    \<lparr>has_camera = True, aovBindings_empty = False, aovBinding_supported = True,
     format_is_Float32Vec4 = True, sceneStateVersion = 1, sprimIndexVersion = 2,
     visibilityChangeCount = 1, renderSettingsStateVersion = 1, aovId = 0,
     giShaderCacheNeedsRebuild = False, giGeomCacheNeedsRebuild = False,
     giCreateShaderCache_ok = True, giCreateGeomCache_ok = True\<rparr>"

text \<open>
  Claim C4 at that frame: the sprim-index version read from the registry differs from
  the one of the previous frame, the frame renders, and the only call made is the
  render call. The framebuffer is not invalidated first.
\<close>

theorem Execute_sprim_index_only:
  "sprimIndexVersion sprim_changed_frame \<noteq> m_lastSprimIndexVersion rendered_pass
   \<and> snd (Execute rendered_pass sprim_changed_frame) = [giRender]"
  by (simp add: Execute_def Let_def rendered_pass_def sprim_changed_frame_def)

theorem Execute_sprim_index_only_witness:
  "giInvalidateFramebuffer \<notin> set (snd (Execute rendered_pass sprim_changed_frame))
   \<and> giRender \<in> set (snd (Execute rendered_pass sprim_changed_frame))"
  using Execute_sprim_index_only by simp

section \<open>Device abstraction: binding updates of \<open>cgpu.c\<close>\<close>

text \<open>
  Handles are 64-bit values. \<open>cgpu_resolve_*\<close> looks a handle up in the store of its
  kind and fails on a handle that is not valid: each store is a partial map from handles
  to the internal structure, and a structure changed through the resolved pointer is an
  update of the map. Only the fields that the modelled functions read or write are kept.
\<close>

type_synonym handle = "64 word"

datatype VkDescriptorType =
  VK_DESCRIPTOR_TYPE_SAMPLER
  | VK_DESCRIPTOR_TYPE_SAMPLED_IMAGE
  | VK_DESCRIPTOR_TYPE_STORAGE_IMAGE
  | VK_DESCRIPTOR_TYPE_STORAGE_BUFFER
  | VK_DESCRIPTOR_TYPE_OTHER nat

datatype VkImageLayout =
  VK_IMAGE_LAYOUT_UNDEFINED
  | VK_IMAGE_LAYOUT_GENERAL
  | VK_IMAGE_LAYOUT_SHADER_READ_ONLY_OPTIMAL
  | VK_IMAGE_LAYOUT_OTHER nat

type_synonym VkAccessFlags = "32 word"

definition VK_ACCESS_SHADER_READ_BIT :: VkAccessFlags where
  "VK_ACCESS_SHADER_READ_BIT = 0x20"

definition VK_ACCESS_SHADER_WRITE_BIT :: VkAccessFlags where
  "VK_ACCESS_SHADER_WRITE_BIT = 0x40"

definition VK_ACCESS_MEMORY_WRITE_BIT :: VkAccessFlags where
  "VK_ACCESS_MEMORY_WRITE_BIT = 0x10000"

definition MAX_DESCRIPTOR_SET_LAYOUT_BINDINGS :: nat where
  "MAX_DESCRIPTOR_SET_LAYOUT_BINDINGS = 128"

definition MAX_DESCRIPTOR_BUFFER_INFOS :: nat where
  "MAX_DESCRIPTOR_BUFFER_INFOS = 64"

definition MAX_DESCRIPTOR_IMAGE_INFOS :: nat where
  "MAX_DESCRIPTOR_IMAGE_INFOS = 2048"

definition MAX_WRITE_DESCRIPTOR_SETS :: nat where
  "MAX_WRITE_DESCRIPTOR_SETS = 128"

definition MAX_IMAGE_MEMORY_BARRIERS :: nat where
  "MAX_IMAGE_MEMORY_BARRIERS = 2048"

text \<open>
  Modelled from the spec: \<open>cgpu.h\<close>, which declares \<open>CGPU_WHOLE_SIZE\<close>, is missing;
  it is taken to be the all-ones 64-bit value.
\<close>

definition CGPU_WHOLE_SIZE :: "64 word" where
  "CGPU_WHOLE_SIZE = - 1"

record cgpu_iimage =
  vk_image :: nat
  image_view :: nat
  layout :: VkImageLayout
  access_mask :: VkAccessFlags

record cgpu_ibuffer =
  buffer :: nat
  buffer_size :: "64 word"

record cgpu_isampler =
  sampler :: nat

text \<open>
  One entry of the reflection of a shader (\<open>cgpu_shader_reflection_binding\<close>). The same
  five fields are what \<open>cgpu_create_pipeline_descriptors\<close> copies into the layout
  bindings of the pipeline (\<open>binding\<close>, \<open>descriptorType\<close>, \<open>descriptorCount\<close>).
\<close>

record cgpu_shader_reflection_binding =
  binding :: nat
  count :: nat
  descriptor_type :: VkDescriptorType
  read_access :: bool
  write_access :: bool

record VkDescriptorSetLayoutBinding =
  layout_binding :: nat
  descriptorType :: VkDescriptorType
  descriptorCount :: nat

record cgpu_ipipeline =
  descriptor_set_layout_bindings :: "VkDescriptorSetLayoutBinding list"
  shader :: handle

record cgpu_icommand_buffer =
  device :: handle

record cgpu_idevice =
  minStorageBufferOffsetAlignment :: "64 word"

text \<open>The entries of \<open>cgpu_bindings\<close>; the fields \<open>binding\<close> and \<open>index\<close> carry the
  kind of the entry in their names.\<close>

record cgpu_buffer_binding =
  buffer_binding :: nat
  buffer_index :: nat
  bound_buffer :: handle
  offset :: "64 word"
  bound_size :: "64 word"

record cgpu_image_binding =
  image_binding :: nat
  image_index :: nat
  bound_image :: handle

record cgpu_sampler_binding =
  sampler_binding :: nat
  sampler_index :: nat
  bound_sampler :: handle

record cgpu_bindings =
  p_buffers :: "cgpu_buffer_binding list"
  p_images :: "cgpu_image_binding list"
  p_samplers :: "cgpu_sampler_binding list"

record VkImageMemoryBarrier =
  srcAccessMask :: VkAccessFlags
  dstAccessMask :: VkAccessFlags
  oldLayout :: VkImageLayout
  newLayout :: VkImageLayout
  barrier_image :: nat

record VkDescriptorBufferInfo =
  info_buffer :: nat
  info_offset :: "64 word"
  info_range :: "64 word"

record VkDescriptorImageInfo =
  info_sampler :: "nat option"
  imageView :: "nat option"
  imageLayout :: VkImageLayout

record VkWriteDescriptorSet =
  dstBinding :: nat
  write_descriptorCount :: nat
  write_descriptorType :: VkDescriptorType
  pBufferInfo :: "nat option"
  pImageInfo :: "nat option"

text \<open>
  The failures. The first three are what the source reports before it returns
  \<open>false\<close>. \<open>OutOfBoundsWrite\<close> is no return value of the source: it marks a store
  past the end of a fixed-size local array, where the behaviour of the C program is
  undefined.
\<close>

datatype cgpu_error =
  InvalidHandle
  | HardcodedLimitReached
  | Error string
  | OutOfBoundsWrite

record cgpu_stores =
  idevice_store :: "handle \<rightharpoonup> cgpu_idevice"
  ibuffer_store :: "handle \<rightharpoonup> cgpu_ibuffer"
  iimage_store :: "handle \<rightharpoonup> cgpu_iimage"
  ishader_store :: "handle \<rightharpoonup> cgpu_shader_reflection_binding list"
  ipipeline_store :: "handle \<rightharpoonup> cgpu_ipipeline"
  icommand_buffer_store :: "handle \<rightharpoonup> cgpu_icommand_buffer"
  isampler_store :: "handle \<rightharpoonup> cgpu_isampler"

subsection \<open>\<open>cgpu_transition_image_layouts_for_shader\<close>\<close>

text \<open>
  The state of the two nested loops: the images (changed in place through the resolved
  pointers) and the local array of barriers with its count, the length of the list.
\<close>

type_synonym transition_state = "(handle \<rightharpoonup> cgpu_iimage) \<times> VkImageMemoryBarrier list"

text \<open>
  A failure leaves the loops at once. The images changed before it stay changed, so a
  failure carries the images as they are at that point.
\<close>

type_synonym transition_failure = "cgpu_error \<times> (handle \<rightharpoonup> cgpu_iimage)"

text \<open>The search loop over \<open>k\<close>: the first entry of \<open>p_images\<close> for the slot.\<close>

definition find_image_binding ::
  "cgpu_image_binding list \<Rightarrow> nat \<Rightarrow> nat \<Rightarrow> cgpu_image_binding option" where
  "find_image_binding images b j = find (\<lambda>ib. image_binding ib = b \<and> image_index ib = j) images"

text \<open>The two assignments that compute the access mask of a barrier.\<close>

definition shader_access_mask :: "cgpu_shader_reflection_binding \<Rightarrow> VkAccessFlags" where
  "shader_access_mask b =
    (let access_mask = 0;
         access_mask = (if read_access b then VK_ACCESS_SHADER_READ_BIT else access_mask);
         access_mask = (if write_access b then VK_ACCESS_SHADER_WRITE_BIT else access_mask)
     in access_mask)"

text \<open>The body of the loop over \<open>j\<close>, for one array element of one image binding.\<close>

definition transition_image ::
  "cgpu_image_binding list \<Rightarrow> cgpu_shader_reflection_binding \<Rightarrow> VkImageLayout \<Rightarrow> nat
    \<Rightarrow> transition_state \<Rightarrow> transition_failure + transition_state" where
  "transition_image images b new_layout j st =
    (case find_image_binding images (binding b) j of
       None \<Rightarrow> Inl (Error ''descriptor set binding mismatch'', fst st)
     | Some ib \<Rightarrow>
        (case fst st (bound_image ib) of
           None \<Rightarrow> Inl (InvalidHandle, fst st)
         | Some iimage \<Rightarrow>
            if new_layout = layout iimage then Inr st
            else if length (snd st) \<ge> MAX_IMAGE_MEMORY_BARRIERS
            then Inl (HardcodedLimitReached, fst st)
            else Inr ((fst st)(bound_image ib \<mapsto>
                        iimage\<lparr>access_mask := shader_access_mask b, layout := new_layout\<rparr>),
                      snd st @ [\<lparr>srcAccessMask = access_mask iimage,
                                 dstAccessMask = shader_access_mask b,
                                 oldLayout = layout iimage, newLayout = new_layout,
                                 barrier_image = vk_image iimage\<rparr>])))"

text \<open>The loop \<open>for (j = 0; j < binding->count; j++)\<close>, given the indices still to do.\<close>

fun transition_elements ::
  "cgpu_image_binding list \<Rightarrow> cgpu_shader_reflection_binding \<Rightarrow> VkImageLayout \<Rightarrow> nat list
    \<Rightarrow> transition_state \<Rightarrow> transition_failure + transition_state" where
  "transition_elements images b new_layout [] st = Inr st"
| "transition_elements images b new_layout (j # js) st =
    (case transition_image images b new_layout j st of
       Inl e \<Rightarrow> Inl e
     | Inr st' \<Rightarrow> transition_elements images b new_layout js st')"

text \<open>The layout a binding asks for; \<open>None\<close> is the branch "not an image".\<close>

definition required_layout :: "VkDescriptorType \<Rightarrow> VkImageLayout option" where
  "required_layout t =
    (if t = VK_DESCRIPTOR_TYPE_SAMPLED_IMAGE then Some VK_IMAGE_LAYOUT_SHADER_READ_ONLY_OPTIMAL
     else if t = VK_DESCRIPTOR_TYPE_STORAGE_IMAGE then Some VK_IMAGE_LAYOUT_GENERAL
     else None)"

text \<open>The loop over the bindings of the reflection.\<close>

fun transition_bindings ::
  "cgpu_image_binding list \<Rightarrow> cgpu_shader_reflection_binding list
    \<Rightarrow> transition_state \<Rightarrow> transition_failure + transition_state" where
  "transition_bindings images [] st = Inr st"
| "transition_bindings images (b # bs) st =
    (case required_layout (descriptor_type b) of
       None \<Rightarrow> transition_bindings images bs st
     | Some new_layout \<Rightarrow>
        (case transition_elements images b new_layout [0..<count b] st of
           Inl e \<Rightarrow> Inl e
         | Inr st' \<Rightarrow> transition_bindings images bs st'))"

text \<open>
  The function: it resolves the shader of the pipeline and the device of the command
  buffer, runs the loops on an empty array of barriers, and records one pipeline barrier
  command if there is any barrier. The result is the barriers recorded and the images as
  they are afterwards.
\<close>

definition cgpu_transition_image_layouts_for_shader ::
  "cgpu_stores \<Rightarrow> cgpu_ipipeline \<Rightarrow> cgpu_icommand_buffer \<Rightarrow> cgpu_image_binding list
    \<Rightarrow> transition_failure + transition_state" where
  "cgpu_transition_image_layouts_for_shader s ipipeline icommand_buffer images =
    (case ishader_store s (shader ipipeline) of
       None \<Rightarrow> Inl (InvalidHandle, iimage_store s)
     | Some reflection \<Rightarrow>
        (case idevice_store s (device icommand_buffer) of
           None \<Rightarrow> Inl (InvalidHandle, iimage_store s)
         | Some idevice \<Rightarrow> transition_bindings images reflection (iimage_store s, [])))"

subsection \<open>\<open>cgpu_cmd_update_bindings\<close>\<close>

text \<open>
  The three local arrays with their counts (the lengths of the lists). A store into
  \<open>array[count++]\<close> of an array of \<open>cap\<close> elements appends when there is room and is
  a write out of bounds when there is none.
\<close>

record update_state =
  buffer_infos :: "VkDescriptorBufferInfo list"
  image_infos :: "VkDescriptorImageInfo list"
  write_descriptor_sets :: "VkWriteDescriptorSet list"

definition array_store :: "nat \<Rightarrow> 'a list \<Rightarrow> 'a \<Rightarrow> cgpu_error + 'a list" where
  "array_store cap array v = (if length array < cap then Inr (array @ [v]) else Inl OutOfBoundsWrite)"

text \<open>\<open>if (j == 0) write_descriptor_set->pBufferInfo = buffer_info\<close>, on the last write set.\<close>

definition set_pBufferInfo :: "nat \<Rightarrow> nat \<Rightarrow> VkWriteDescriptorSet list \<Rightarrow> VkWriteDescriptorSet list" where
  "set_pBufferInfo j info ws =
    (if j = 0 then ws[length ws - 1 := (ws ! (length ws - 1))\<lparr>pBufferInfo := Some info\<rparr>] else ws)"

definition set_pImageInfo :: "nat \<Rightarrow> nat \<Rightarrow> VkWriteDescriptorSet list \<Rightarrow> VkWriteDescriptorSet list" where
  "set_pImageInfo j info ws =
    (if j = 0 then ws[length ws - 1 := (ws ! (length ws - 1))\<lparr>pImageInfo := Some info\<rparr>] else ws)"

text \<open>
  The body of the loop over \<open>j\<close>: by the descriptor type of the layout binding, the
  first user-supplied entry for \<open>(binding, j)\<close> is looked for, checked and appended to
  its array. Before a buffer info is appended the source compares \<open>image_info_count\<close>
  with \<open>MAX_DESCRIPTOR_BUFFER_INFOS\<close>.
\<close>

definition update_slot ::
  "cgpu_stores \<Rightarrow> cgpu_idevice \<Rightarrow> cgpu_bindings \<Rightarrow> VkDescriptorSetLayoutBinding \<Rightarrow> nat
    \<Rightarrow> update_state \<Rightarrow> cgpu_error + update_state" where
  "update_slot s idevice bindings lb j st =
    (if descriptorType lb = VK_DESCRIPTOR_TYPE_STORAGE_BUFFER then
       (case find (\<lambda>bb. \<not> (buffer_binding bb \<noteq> layout_binding lb \<or> buffer_index bb \<noteq> j))
               (p_buffers bindings) of
          None \<Rightarrow> Inl (Error ''resource binding mismatch'')
        | Some bb \<Rightarrow>
           (case ibuffer_store s (bound_buffer bb) of
              None \<Rightarrow> Inl InvalidHandle
            | Some ibuffer \<Rightarrow>
               if offset bb mod minStorageBufferOffsetAlignment idevice \<noteq> 0
               then Inl (Error ''buffer binding offset not aligned'')
               else if length (image_infos st) \<ge> MAX_DESCRIPTOR_BUFFER_INFOS
               then Inl HardcodedLimitReached
               else
                 (case array_store MAX_DESCRIPTOR_BUFFER_INFOS (buffer_infos st)
                    \<lparr>info_buffer = buffer ibuffer, info_offset = offset bb,
                     info_range = (if bound_size bb = CGPU_WHOLE_SIZE then buffer_size ibuffer - offset bb
                              else bound_size bb)\<rparr> of
                    Inl e \<Rightarrow> Inl e
                  | Inr infos \<Rightarrow>
                     Inr (st\<lparr>buffer_infos := infos,
                            write_descriptor_sets :=
                              set_pBufferInfo j (length infos - 1) (write_descriptor_sets st)\<rparr>))))
     else if descriptorType lb = VK_DESCRIPTOR_TYPE_STORAGE_IMAGE
             \<or> descriptorType lb = VK_DESCRIPTOR_TYPE_SAMPLED_IMAGE then
       (case find (\<lambda>ib. \<not> (image_binding ib \<noteq> layout_binding lb \<or> image_index ib \<noteq> j))
               (p_images bindings) of
          None \<Rightarrow> Inl (Error ''resource binding mismatch'')
        | Some ib \<Rightarrow>
           (case iimage_store s (bound_image ib) of
              None \<Rightarrow> Inl InvalidHandle
            | Some iimage \<Rightarrow>
               if length (image_infos st) \<ge> MAX_DESCRIPTOR_IMAGE_INFOS
               then Inl HardcodedLimitReached
               else
                 (case array_store MAX_DESCRIPTOR_IMAGE_INFOS (image_infos st)
                    \<lparr>info_sampler = None, imageView = Some (image_view iimage),
                     imageLayout = layout iimage\<rparr> of
                    Inl e \<Rightarrow> Inl e
                  | Inr infos \<Rightarrow>
                     Inr (st\<lparr>image_infos := infos,
                            write_descriptor_sets :=
                              set_pImageInfo j (length infos - 1) (write_descriptor_sets st)\<rparr>))))
     else if descriptorType lb = VK_DESCRIPTOR_TYPE_SAMPLER then
       (case find (\<lambda>sb. \<not> (sampler_binding sb \<noteq> layout_binding lb \<or> sampler_index sb \<noteq> j))
               (p_samplers bindings) of
          None \<Rightarrow> Inl (Error ''resource binding mismatch'')
        | Some sb \<Rightarrow>
           (case isampler_store s (bound_sampler sb) of
              None \<Rightarrow> Inl InvalidHandle
            | Some isampler \<Rightarrow>
               if length (image_infos st) \<ge> MAX_DESCRIPTOR_IMAGE_INFOS
               then Inl HardcodedLimitReached
               else
                 (case array_store MAX_DESCRIPTOR_IMAGE_INFOS (image_infos st)
                    \<lparr>info_sampler = Some (sampler isampler), imageView = None,
                     imageLayout = VK_IMAGE_LAYOUT_UNDEFINED\<rparr> of
                    Inl e \<Rightarrow> Inl e
                  | Inr infos \<Rightarrow>
                     Inr (st\<lparr>image_infos := infos,
                            write_descriptor_sets :=
                              set_pImageInfo j (length infos - 1) (write_descriptor_sets st)\<rparr>))))
     else Inl (Error ''resource binding mismatch''))"

fun update_slots ::
  "cgpu_stores \<Rightarrow> cgpu_idevice \<Rightarrow> cgpu_bindings \<Rightarrow> VkDescriptorSetLayoutBinding \<Rightarrow> nat list
    \<Rightarrow> update_state \<Rightarrow> cgpu_error + update_state" where
  "update_slots s idevice bindings lb [] st = Inr st"
| "update_slots s idevice bindings lb (j # js) st =
    (case update_slot s idevice bindings lb j st of
       Inl e \<Rightarrow> Inl e
     | Inr st' \<Rightarrow> update_slots s idevice bindings lb js st')"

text \<open>The loop over the layout bindings of the pipeline.\<close>

fun update_layout_bindings ::
  "cgpu_stores \<Rightarrow> cgpu_idevice \<Rightarrow> cgpu_bindings \<Rightarrow> VkDescriptorSetLayoutBinding list
    \<Rightarrow> update_state \<Rightarrow> cgpu_error + update_state" where
  "update_layout_bindings s idevice bindings [] st = Inr st"
| "update_layout_bindings s idevice bindings (lb # lbs) st =
    (if length (write_descriptor_sets st) \<ge> MAX_WRITE_DESCRIPTOR_SETS
     then Inl HardcodedLimitReached
     else
       (case array_store MAX_WRITE_DESCRIPTOR_SETS (write_descriptor_sets st)
          \<lparr>dstBinding = layout_binding lb, write_descriptorCount = descriptorCount lb,
           write_descriptorType = descriptorType lb, pBufferInfo = None, pImageInfo = None\<rparr> of
          Inl e \<Rightarrow> Inl e
        | Inr ws \<Rightarrow>
           (case update_slots s idevice bindings lb [0..<descriptorCount lb]
                   (st\<lparr>write_descriptor_sets := ws\<rparr>) of
              Inl e \<Rightarrow> Inl e
            | Inr st' \<Rightarrow> update_layout_bindings s idevice bindings lbs st')))"

text \<open>
  The function. A failure carries the stores as they are when it returns: the images
  keep the layouts that the transition gave them before the failure. A success carries
  the stores, the barriers recorded and the write sets handed to
  \<open>vkUpdateDescriptorSets\<close>.
\<close>

definition cgpu_cmd_update_bindings ::
  "cgpu_stores \<Rightarrow> handle \<Rightarrow> handle \<Rightarrow> cgpu_bindings
    \<Rightarrow> cgpu_error \<times> cgpu_stores + cgpu_stores \<times> VkImageMemoryBarrier list \<times> update_state" where
  "cgpu_cmd_update_bindings s command_buffer pipeline bindings =
    (case icommand_buffer_store s command_buffer of
       None \<Rightarrow> Inl (InvalidHandle, s)
     | Some icommand_buffer \<Rightarrow>
        (case idevice_store s (device icommand_buffer) of
           None \<Rightarrow> Inl (InvalidHandle, s)
         | Some idevice \<Rightarrow>
            (case ipipeline_store s pipeline of
               None \<Rightarrow> Inl (InvalidHandle, s)
             | Some ipipeline \<Rightarrow>
                (case cgpu_transition_image_layouts_for_shader s ipipeline icommand_buffer
                        (p_images bindings) of
                   Inl (e, images) \<Rightarrow> Inl (e, s\<lparr>iimage_store := images\<rparr>)
                 | Inr (images, barriers) \<Rightarrow>
                    (let s = s\<lparr>iimage_store := images\<rparr> in
                     case update_layout_bindings s idevice bindings
                            (descriptor_set_layout_bindings ipipeline)
                            \<lparr>buffer_infos = [], image_infos = [], write_descriptor_sets = []\<rparr> of
                       Inl e \<Rightarrow> Inl (e, s)
                     | Inr st \<Rightarrow> Inr (s, barriers, st))))))"

subsection \<open>What the transition does to one image\<close>

text \<open>
  \<open>settle L m im\<close> is the image \<open>im\<close> after a slot that asks for layout \<open>L\<close> with
  access mask \<open>m\<close> has been handled: untouched when it is in layout \<open>L\<close> already.
\<close>

definition settle :: "VkImageLayout \<Rightarrow> VkAccessFlags \<Rightarrow> cgpu_iimage \<Rightarrow> cgpu_iimage" where
  "settle L m im = (if layout im = L then im else im\<lparr>access_mask := m, layout := L\<rparr>)"

text \<open>The image that the search loop finds for element \<open>j\<close> of binding \<open>b\<close>.\<close>

definition slot_image :: "cgpu_image_binding list \<Rightarrow> cgpu_shader_reflection_binding \<Rightarrow> nat \<Rightarrow> handle option" where
  "slot_image images b j = map_option bound_image (find_image_binding images (binding b) j)"

lemma settle_idem: "settle L m (settle L m im) = settle L m im"
  by (simp add: settle_def)

lemma layout_settle: "layout (settle L m im) = L"
  by (simp add: settle_def)

lemma transition_image_Inr:
  assumes "transition_image images b L j st = Inr st'"
  obtains h im where "slot_image images b j = Some h" "fst st h = Some im"
    "fst st' = (fst st)(h \<mapsto> settle L (shader_access_mask b) im)"
proof -
  from assms obtain ib where ib: "find_image_binding images (binding b) j = Some ib"
    by (auto simp: transition_image_def split: option.splits)
  with assms obtain im where im: "fst st (bound_image ib) = Some im"
    by (auto simp: transition_image_def split: option.splits)
  have "fst st' = (fst st)(bound_image ib \<mapsto> settle L (shader_access_mask b) im)"
  proof (cases "L = layout im")
    case True
    with assms ib im have "st' = st"
      by (simp add: transition_image_def)
    with True im show ?thesis
      by (auto simp: settle_def)
  next
    case False
    with assms ib im show ?thesis
      by (auto simp: transition_image_def settle_def split: if_splits)
  qed
  with ib im show ?thesis
    by (intro that [of "bound_image ib" im]) (simp_all add: slot_image_def)
qed

text \<open>
  Fix an image \<open>h\<close> that starts as \<open>im0\<close>, and let every slot that resolves to \<open>h\<close>
  ask for layout \<open>L\<close> with mask \<open>m\<close>. Then \<open>h\<close> is \<open>im0\<close> until the first such slot,
  and \<open>settle L m im0\<close> from then on.
\<close>

lemma transition_image_step:
  assumes "transition_image images b Lb j st = Inr st'"
    and "slot_image images b j = Some h \<Longrightarrow> Lb = L \<and> shader_access_mask b = m"
  shows "fst st h = Some (settle L m im0) \<Longrightarrow> fst st' h = Some (settle L m im0)"
    and "fst st h = Some im0 \<Longrightarrow> fst st' h = Some im0 \<or> fst st' h = Some (settle L m im0)"
    and "slot_image images b j = Some h \<Longrightarrow> fst st h = Some im0
          \<Longrightarrow> fst st' h = Some (settle L m im0)"
  using assms(1)
  by (rule transition_image_Inr; use assms(2) in \<open>auto simp: settle_idem\<close>)+

lemma transition_elements_step:
  assumes "transition_elements images b Lb js st = Inr st'"
    and "\<And>j. j \<in> set js \<Longrightarrow> slot_image images b j = Some h \<Longrightarrow> Lb = L \<and> shader_access_mask b = m"
    and "fst st h = Some im0 \<or> fst st h = Some (settle L m im0)"
  shows "(fst st' h = Some im0 \<or> fst st' h = Some (settle L m im0))
    \<and> (fst st h = Some (settle L m im0) \<or> (\<exists>j\<in>set js. slot_image images b j = Some h)
         \<longrightarrow> fst st' h = Some (settle L m im0))"
  using assms
proof (induction js arbitrary: st)
  case Nil
  then show ?case by auto
next
  case (Cons j js)
  from Cons.prems(1) obtain st1 where
    s1: "transition_image images b Lb j st = Inr st1" and
    s2: "transition_elements images b Lb js st1 = Inr st'"
    by (auto split: sum.splits)
  have c: "slot_image images b j = Some h \<Longrightarrow> Lb = L \<and> shader_access_mask b = m"
    by (rule Cons.prems(2)) simp_all
  have c2: "\<And>j'. j' \<in> set js \<Longrightarrow> slot_image images b j' = Some h
      \<Longrightarrow> Lb = L \<and> shader_access_mask b = m"
    by (rule Cons.prems(2)) simp_all
  note step = transition_image_step [OF s1 c, where ?im0.0 = im0]
  have p1: "fst st1 h = Some im0 \<or> fst st1 h = Some (settle L m im0)"
    using Cons.prems(3) step(1,2) by blast
  have ih: "(fst st' h = Some im0 \<or> fst st' h = Some (settle L m im0))
    \<and> (fst st1 h = Some (settle L m im0) \<or> (\<exists>j\<in>set js. slot_image images b j = Some h)
         \<longrightarrow> fst st' h = Some (settle L m im0))"
    by (rule Cons.IH [OF s2 c2 p1])
  have q1: "fst st h = Some (settle L m im0) \<or> slot_image images b j = Some h
      \<Longrightarrow> fst st1 h = Some (settle L m im0)"
    using Cons.prems(3) step(1,3) by blast
  show ?case
    using ih q1 by auto
qed

lemma transition_bindings_step:
  assumes "transition_bindings images bs st = Inr st'"
    and "\<And>b j Lb. b \<in> set bs \<Longrightarrow> j < count b \<Longrightarrow> required_layout (descriptor_type b) = Some Lb
          \<Longrightarrow> slot_image images b j = Some h \<Longrightarrow> Lb = L \<and> shader_access_mask b = m"
    and "fst st h = Some im0 \<or> fst st h = Some (settle L m im0)"
  shows "(fst st' h = Some im0 \<or> fst st' h = Some (settle L m im0))
    \<and> (fst st h = Some (settle L m im0)
         \<or> (\<exists>b\<in>set bs. \<exists>j<count b. required_layout (descriptor_type b) \<noteq> None
               \<and> slot_image images b j = Some h)
         \<longrightarrow> fst st' h = Some (settle L m im0))"
  using assms
proof (induction bs arbitrary: st)
  case Nil
  then show ?case by auto
next
  case (Cons b bs)
  have c2: "\<And>b' j Lb. b' \<in> set bs \<Longrightarrow> j < count b'
      \<Longrightarrow> required_layout (descriptor_type b') = Some Lb
      \<Longrightarrow> slot_image images b' j = Some h \<Longrightarrow> Lb = L \<and> shader_access_mask b' = m"
    by (rule Cons.prems(2)) simp_all
  show ?case
  proof (cases "required_layout (descriptor_type b)")
    case None
    with Cons.prems(1) have s2: "transition_bindings images bs st = Inr st'"
      by simp
    have "(fst st' h = Some im0 \<or> fst st' h = Some (settle L m im0))
      \<and> (fst st h = Some (settle L m im0)
         \<or> (\<exists>b\<in>set bs. \<exists>j<count b. required_layout (descriptor_type b) \<noteq> None
               \<and> slot_image images b j = Some h)
         \<longrightarrow> fst st' h = Some (settle L m im0))"
      by (rule Cons.IH [OF s2 c2 Cons.prems(3)])
    with None show ?thesis by auto
  next
    case (Some Lb)
    with Cons.prems(1) obtain st1 where
      s1: "transition_elements images b Lb [0..<count b] st = Inr st1" and
      s2: "transition_bindings images bs st1 = Inr st'"
      by (auto split: sum.splits)
    have c: "\<And>j. j \<in> set [0..<count b] \<Longrightarrow> slot_image images b j = Some h
        \<Longrightarrow> Lb = L \<and> shader_access_mask b = m"
      using Some by (intro Cons.prems(2) [of b _ Lb]) simp_all
    have e: "(fst st1 h = Some im0 \<or> fst st1 h = Some (settle L m im0))
      \<and> (fst st h = Some (settle L m im0) \<or> (\<exists>j\<in>set [0..<count b]. slot_image images b j = Some h)
         \<longrightarrow> fst st1 h = Some (settle L m im0))"
      by (rule transition_elements_step [OF s1 c Cons.prems(3)])
    from e have p1: "fst st1 h = Some im0 \<or> fst st1 h = Some (settle L m im0)"
      by simp
    have ih: "(fst st' h = Some im0 \<or> fst st' h = Some (settle L m im0))
      \<and> (fst st1 h = Some (settle L m im0)
         \<or> (\<exists>b\<in>set bs. \<exists>j<count b. required_layout (descriptor_type b) \<noteq> None
               \<and> slot_image images b j = Some h)
         \<longrightarrow> fst st' h = Some (settle L m im0))"
      by (rule Cons.IH [OF s2 c2 p1])
    show ?thesis
      using ih e Some by auto
  qed
qed

subsection \<open>The tracked state of an image after a binding update\<close>

definition succeeded :: "'e + 'a \<Rightarrow> bool" where
  "succeeded r = (case r of Inl e \<Rightarrow> False | Inr v \<Rightarrow> True)"

definition stores_after ::
  "cgpu_error \<times> cgpu_stores + cgpu_stores \<times> VkImageMemoryBarrier list \<times> update_state \<Rightarrow> cgpu_stores" where
  "stores_after r = (case r of Inl (e, s) \<Rightarrow> s | Inr (s, barriers, st) \<Rightarrow> s)"

lemma update_bindings_succeeded:
  assumes ok: "succeeded (cgpu_cmd_update_bindings s command_buffer pipeline bindings)"
    and p: "ipipeline_store s pipeline = Some ipipeline"
    and r: "ishader_store s (shader ipipeline) = Some reflection"
  obtains barriers where
    "transition_bindings (p_images bindings) reflection (iimage_store s, [])
      = Inr (iimage_store (stores_after (cgpu_cmd_update_bindings s command_buffer pipeline bindings)),
             barriers)"
proof (cases "icommand_buffer_store s command_buffer")
  case None
  with ok show ?thesis
    by (simp add: succeeded_def cgpu_cmd_update_bindings_def)
next
  case cb: (Some icommand_buffer)
  show ?thesis
  proof (cases "idevice_store s (device icommand_buffer)")
    case None
    with ok cb show ?thesis
      by (simp add: succeeded_def cgpu_cmd_update_bindings_def)
  next
    case dev: (Some idevice)
    have t: "cgpu_transition_image_layouts_for_shader s ipipeline icommand_buffer (p_images bindings)
      = transition_bindings (p_images bindings) reflection (iimage_store s, [])"
      by (simp add: cgpu_transition_image_layouts_for_shader_def r dev)
    show ?thesis
    proof (cases "transition_bindings (p_images bindings) reflection (iimage_store s, [])")
      case (Inl f)
      with ok cb dev p t show ?thesis
        by (simp add: succeeded_def cgpu_cmd_update_bindings_def split: prod.splits)
    next
      case (Inr st)
      obtain images barriers where st: "st = (images, barriers)"
        by (cases st)
      show ?thesis
      proof (cases "update_layout_bindings (s\<lparr>iimage_store := images\<rparr>) idevice bindings
          (descriptor_set_layout_bindings ipipeline)
          \<lparr>buffer_infos = [], image_infos = [], write_descriptor_sets = []\<rparr>")
        case (Inl e)
        with ok cb dev p t Inr st show ?thesis
          by (simp add: succeeded_def cgpu_cmd_update_bindings_def)
      next
        case u: (Inr ust)
        from cb dev p t Inr st u
        have "cgpu_cmd_update_bindings s command_buffer pipeline bindings
            = Inr (s\<lparr>iimage_store := images\<rparr>, barriers, ust)"
          by (simp add: cgpu_cmd_update_bindings_def)
        then have "iimage_store (stores_after (cgpu_cmd_update_bindings s command_buffer pipeline bindings))
            = images"
          by (simp add: stores_after_def)
        with Inr st show ?thesis
          by (intro that [of barriers]) simp
      qed
    qed
  qed
qed

lemma shader_access_mask_cases:
  "read_access b \<Longrightarrow> \<not> write_access b \<Longrightarrow> shader_access_mask b = VK_ACCESS_SHADER_READ_BIT"
  "write_access b \<Longrightarrow> shader_access_mask b = VK_ACCESS_SHADER_WRITE_BIT"
  "\<not> read_access b \<Longrightarrow> \<not> write_access b \<Longrightarrow> shader_access_mask b = 0"
  by (simp_all add: shader_access_mask_def)

lemma shader_access_mask_cong:
  "read_access b' = read_access b \<Longrightarrow> write_access b' = write_access b
    \<Longrightarrow> shader_access_mask b' = shader_access_mask b"
  by (simp add: shader_access_mask_def)

text \<open>
  Claim C7, as the code has it. Let \<open>cgpu_cmd_update_bindings\<close> succeed, let the image
  \<open>h\<close> be bound at element \<open>j\<close> of an image binding \<open>b\<close> of the reflection of the
  pipeline's shader, and let every slot at which \<open>h\<close> is bound be of the same kind and
  reflected with the same read and write access. Then afterwards the tracked layout of
  \<open>h\<close> is \<open>ShaderReadOnly\<close> for a sampled-image binding and \<open>General\<close> for a
  storage-image binding. Its tracked access mask is left as it was when the image was
  in that layout already; when the layout had to change, the mask is \<open>ShaderRead\<close> for
  a binding that is only read and \<open>ShaderWrite\<close> for a binding that is only written.
\<close>

theorem cgpu_cmd_update_bindings_image_state:
  assumes "succeeded (cgpu_cmd_update_bindings s command_buffer pipeline bindings)"
    and "ipipeline_store s pipeline = Some ipipeline"
    and "ishader_store s (shader ipipeline) = Some reflection"
    and "b \<in> set reflection" and "j < count b"
    and "required_layout (descriptor_type b) = Some L"
    and "slot_image (p_images bindings) b j = Some h"
    and "iimage_store s h = Some im0"
    and "\<And>b' j' L'. b' \<in> set reflection \<Longrightarrow> j' < count b'
          \<Longrightarrow> required_layout (descriptor_type b') = Some L'
          \<Longrightarrow> slot_image (p_images bindings) b' j' = Some h
          \<Longrightarrow> L' = L \<and> read_access b' = read_access b \<and> write_access b' = write_access b"
  shows "map_option layout
           (iimage_store (stores_after (cgpu_cmd_update_bindings s command_buffer pipeline bindings)) h)
         = Some L
    \<and> (descriptor_type b = VK_DESCRIPTOR_TYPE_SAMPLED_IMAGE
         \<longrightarrow> L = VK_IMAGE_LAYOUT_SHADER_READ_ONLY_OPTIMAL)
    \<and> (descriptor_type b = VK_DESCRIPTOR_TYPE_STORAGE_IMAGE \<longrightarrow> L = VK_IMAGE_LAYOUT_GENERAL)
    \<and> (layout im0 = L
         \<longrightarrow> map_option access_mask
               (iimage_store (stores_after (cgpu_cmd_update_bindings s command_buffer pipeline bindings)) h)
             = Some (access_mask im0))
    \<and> (layout im0 \<noteq> L \<and> read_access b \<and> \<not> write_access b
         \<longrightarrow> map_option access_mask
               (iimage_store (stores_after (cgpu_cmd_update_bindings s command_buffer pipeline bindings)) h)
             = Some VK_ACCESS_SHADER_READ_BIT)
    \<and> (layout im0 \<noteq> L \<and> write_access b \<and> \<not> read_access b
         \<longrightarrow> map_option access_mask
               (iimage_store (stores_after (cgpu_cmd_update_bindings s command_buffer pipeline bindings)) h)
             = Some VK_ACCESS_SHADER_WRITE_BIT)"
proof -
  let ?s' = "stores_after (cgpu_cmd_update_bindings s command_buffer pipeline bindings)"
  from assms(1-3) obtain barriers where
    t: "transition_bindings (p_images bindings) reflection (iimage_store s, [])
          = Inr (iimage_store ?s', barriers)"
    by (rule update_bindings_succeeded)
  have c: "\<And>b' j' Lb. b' \<in> set reflection \<Longrightarrow> j' < count b'
      \<Longrightarrow> required_layout (descriptor_type b') = Some Lb
      \<Longrightarrow> slot_image (p_images bindings) b' j' = Some h
      \<Longrightarrow> Lb = L \<and> shader_access_mask b' = shader_access_mask b"
  proof -
    fix b' j' Lb
    assume "b' \<in> set reflection" "j' < count b'"
      "required_layout (descriptor_type b') = Some Lb"
      "slot_image (p_images bindings) b' j' = Some h"
    then have "Lb = L \<and> read_access b' = read_access b \<and> write_access b' = write_access b"
      by (rule assms(9))
    then show "Lb = L \<and> shader_access_mask b' = shader_access_mask b"
      by (simp add: shader_access_mask_def)
  qed
  have p: "fst (iimage_store s, [] :: VkImageMemoryBarrier list) h = Some im0
      \<or> fst (iimage_store s, [] :: VkImageMemoryBarrier list) h = Some (settle L (shader_access_mask b) im0)"
    using assms(8) by simp
  have ex: "\<exists>b\<in>set reflection. \<exists>j<count b. required_layout (descriptor_type b) \<noteq> None
      \<and> slot_image (p_images bindings) b j = Some h"
    using assms(4-7) by blast
  have step: "fst (iimage_store s, [] :: VkImageMemoryBarrier list) h = Some (settle L (shader_access_mask b) im0)
         \<or> (\<exists>b\<in>set reflection. \<exists>j<count b. required_layout (descriptor_type b) \<noteq> None
               \<and> slot_image (p_images bindings) b j = Some h)
         \<longrightarrow> fst (iimage_store ?s', barriers) h = Some (settle L (shader_access_mask b) im0)"
    by (rule conjunct2 [OF transition_bindings_step [OF t c p]])
  from step ex have im: "iimage_store ?s' h = Some (settle L (shader_access_mask b) im0)"
    by simp
  have l: "map_option layout (iimage_store ?s' h) = Some L"
    by (simp add: im layout_settle)
  have k: "(descriptor_type b = VK_DESCRIPTOR_TYPE_SAMPLED_IMAGE
         \<longrightarrow> L = VK_IMAGE_LAYOUT_SHADER_READ_ONLY_OPTIMAL)
    \<and> (descriptor_type b = VK_DESCRIPTOR_TYPE_STORAGE_IMAGE \<longrightarrow> L = VK_IMAGE_LAYOUT_GENERAL)"
    using assms(6) by (auto simp: required_layout_def split: if_splits)
  have a0: "layout im0 = L \<longrightarrow> map_option access_mask (iimage_store ?s' h) = Some (access_mask im0)"
    by (simp add: im settle_def)
  have a1: "layout im0 \<noteq> L \<and> read_access b \<and> \<not> write_access b
         \<longrightarrow> map_option access_mask (iimage_store ?s' h) = Some VK_ACCESS_SHADER_READ_BIT"
    by (simp add: im settle_def shader_access_mask_cases)
  have a2: "layout im0 \<noteq> L \<and> write_access b \<and> \<not> read_access b
         \<longrightarrow> map_option access_mask (iimage_store ?s' h) = Some VK_ACCESS_SHADER_WRITE_BIT"
    by (simp add: im settle_def shader_access_mask_cases)
  from l k a0 a1 a2 show ?thesis
    by blast
qed

subsection \<open>Two concrete binding updates\<close>

text \<open>
  The part of \<open>cgpu_cmd_copy_buffer_to_image\<close> that tracks the image: an image that
  is not in layout \<open>General\<close> gets a barrier, moves to \<open>General\<close> and has
  \<open>MemoryWrite\<close> added to its access mask.
\<close>

definition cgpu_cmd_copy_buffer_to_image ::
  "cgpu_stores \<Rightarrow> handle \<Rightarrow> handle \<Rightarrow> handle
    \<Rightarrow> cgpu_error + cgpu_stores \<times> VkImageMemoryBarrier list" where
  "cgpu_cmd_copy_buffer_to_image s command_buffer buf img =
    (case icommand_buffer_store s command_buffer of
       None \<Rightarrow> Inl InvalidHandle
     | Some icommand_buffer \<Rightarrow>
        (case idevice_store s (device icommand_buffer) of
           None \<Rightarrow> Inl InvalidHandle
         | Some idevice \<Rightarrow>
            (case ibuffer_store s buf of
               None \<Rightarrow> Inl InvalidHandle
             | Some ibuffer \<Rightarrow>
                (case iimage_store s img of
                   None \<Rightarrow> Inl InvalidHandle
                 | Some iimage \<Rightarrow>
                    if layout iimage \<noteq> VK_IMAGE_LAYOUT_GENERAL
                    then Inr (s\<lparr>iimage_store := (iimage_store s)(img \<mapsto>
                                 iimage\<lparr>layout := VK_IMAGE_LAYOUT_GENERAL,
                                        access_mask := access_mask iimage OR VK_ACCESS_MEMORY_WRITE_BIT\<rparr>)\<rparr>,
                              [\<lparr>srcAccessMask = access_mask iimage,
                                dstAccessMask = access_mask iimage OR VK_ACCESS_MEMORY_WRITE_BIT,
                                oldLayout = layout iimage, newLayout = VK_IMAGE_LAYOUT_GENERAL,
                                barrier_image = vk_image iimage\<rparr>])
                    else Inr (s, [])))))"

text \<open>
  One device, one command buffer, one buffer, and the image 7 as \<open>cgpu_create_image\<close>
  leaves it (layout \<open>Undefined\<close>, access mask 0); a shader with the single image
  binding \<open>b\<close>, and its pipeline.
\<close>

definition example_stores :: "cgpu_shader_reflection_binding \<Rightarrow> cgpu_stores" where
  "example_stores b =
    \<lparr>idevice_store = [1 \<mapsto> \<lparr>minStorageBufferOffsetAlignment = 16\<rparr>],
     ibuffer_store = [1 \<mapsto> \<lparr>buffer = 1, buffer_size = 1024\<rparr>],
     iimage_store = [7 \<mapsto> \<lparr>vk_image = 70, image_view = 71, layout = VK_IMAGE_LAYOUT_UNDEFINED,
                            access_mask = 0\<rparr>],
     ishader_store = [1 \<mapsto> [b]],
     ipipeline_store = [1 \<mapsto> \<lparr>descriptor_set_layout_bindings =
        [\<lparr>layout_binding = binding b, descriptorType = descriptor_type b,
          descriptorCount = count b\<rparr>], shader = 1\<rparr>],
     icommand_buffer_store = [1 \<mapsto> \<lparr>device = 1\<rparr>],
     isampler_store = Map.empty\<rparr>"

definition sampled_binding :: cgpu_shader_reflection_binding where
  "sampled_binding = \<lparr>binding = 0, count = 1, descriptor_type = VK_DESCRIPTOR_TYPE_SAMPLED_IMAGE,
     read_access = True, write_access = False\<rparr>"

definition written_storage_binding :: cgpu_shader_reflection_binding where
  "written_storage_binding = \<lparr>binding = 0, count = 1,
     descriptor_type = VK_DESCRIPTOR_TYPE_STORAGE_IMAGE, read_access = False, write_access = True\<rparr>"

definition image_7_bound :: cgpu_bindings where
  "image_7_bound = \<lparr>p_buffers = [], p_images = [\<lparr>image_binding = 0, image_index = 0,
     bound_image = 7\<rparr>], p_samplers = []\<rparr>"

text \<open>The stores after the image 7 has been the target of a buffer-to-image copy.\<close>

definition stores_after_copy :: cgpu_stores where
  "stores_after_copy =
    (case cgpu_cmd_copy_buffer_to_image (example_stores written_storage_binding) 1 1 7 of
       Inl e \<Rightarrow> example_stores written_storage_binding
     | Inr (s, barriers) \<Rightarrow> s)"

lemma sampled_example_succeeds:
  "succeeded (cgpu_cmd_update_bindings (example_stores sampled_binding) 1 1 image_7_bound)"
  by code_simp

theorem cgpu_cmd_update_bindings_image_state_witness:
  "succeeded (cgpu_cmd_update_bindings (example_stores sampled_binding) 1 1 image_7_bound)
   \<and> map_option layout (iimage_store (stores_after
         (cgpu_cmd_update_bindings (example_stores sampled_binding) 1 1 image_7_bound)) 7)
       = Some VK_IMAGE_LAYOUT_SHADER_READ_ONLY_OPTIMAL
   \<and> map_option access_mask (iimage_store (stores_after
         (cgpu_cmd_update_bindings (example_stores sampled_binding) 1 1 image_7_bound)) 7)
       = Some VK_ACCESS_SHADER_READ_BIT"
proof -
  have "map_option layout (iimage_store (stores_after
         (cgpu_cmd_update_bindings (example_stores sampled_binding) 1 1 image_7_bound)) 7)
       = Some VK_IMAGE_LAYOUT_SHADER_READ_ONLY_OPTIMAL
    \<and> (descriptor_type sampled_binding = VK_DESCRIPTOR_TYPE_SAMPLED_IMAGE
         \<longrightarrow> VK_IMAGE_LAYOUT_SHADER_READ_ONLY_OPTIMAL = VK_IMAGE_LAYOUT_SHADER_READ_ONLY_OPTIMAL)
    \<and> (descriptor_type sampled_binding = VK_DESCRIPTOR_TYPE_STORAGE_IMAGE
         \<longrightarrow> VK_IMAGE_LAYOUT_SHADER_READ_ONLY_OPTIMAL = VK_IMAGE_LAYOUT_GENERAL)
    \<and> (layout \<lparr>vk_image = 70, image_view = 71, layout = VK_IMAGE_LAYOUT_UNDEFINED, access_mask = 0\<rparr>
          = VK_IMAGE_LAYOUT_SHADER_READ_ONLY_OPTIMAL
         \<longrightarrow> map_option access_mask (iimage_store (stores_after
               (cgpu_cmd_update_bindings (example_stores sampled_binding) 1 1 image_7_bound)) 7)
             = Some (access_mask \<lparr>vk_image = 70, image_view = 71, layout = VK_IMAGE_LAYOUT_UNDEFINED,
                  access_mask = 0\<rparr>))
    \<and> (layout \<lparr>vk_image = 70, image_view = 71, layout = VK_IMAGE_LAYOUT_UNDEFINED, access_mask = 0\<rparr>
          \<noteq> VK_IMAGE_LAYOUT_SHADER_READ_ONLY_OPTIMAL
         \<and> read_access sampled_binding \<and> \<not> write_access sampled_binding
         \<longrightarrow> map_option access_mask (iimage_store (stores_after
               (cgpu_cmd_update_bindings (example_stores sampled_binding) 1 1 image_7_bound)) 7)
             = Some VK_ACCESS_SHADER_READ_BIT)
    \<and> (layout \<lparr>vk_image = 70, image_view = 71, layout = VK_IMAGE_LAYOUT_UNDEFINED, access_mask = 0\<rparr>
          \<noteq> VK_IMAGE_LAYOUT_SHADER_READ_ONLY_OPTIMAL
         \<and> write_access sampled_binding \<and> \<not> read_access sampled_binding
         \<longrightarrow> map_option access_mask (iimage_store (stores_after
               (cgpu_cmd_update_bindings (example_stores sampled_binding) 1 1 image_7_bound)) 7)
             = Some VK_ACCESS_SHADER_WRITE_BIT)"
  proof (rule cgpu_cmd_update_bindings_image_state [where j = 0 and reflection = "[sampled_binding]"])
    show "succeeded (cgpu_cmd_update_bindings (example_stores sampled_binding) 1 1 image_7_bound)"
      by (rule sampled_example_succeeds)
    show "ipipeline_store (example_stores sampled_binding) 1
        = Some \<lparr>descriptor_set_layout_bindings =
            [\<lparr>layout_binding = binding sampled_binding, descriptorType = descriptor_type sampled_binding,
              descriptorCount = count sampled_binding\<rparr>], shader = 1\<rparr>"
      by (simp add: example_stores_def)
    show "ishader_store (example_stores sampled_binding)
        (shader \<lparr>descriptor_set_layout_bindings =
            [\<lparr>layout_binding = binding sampled_binding, descriptorType = descriptor_type sampled_binding,
              descriptorCount = count sampled_binding\<rparr>], shader = 1\<rparr>) = Some [sampled_binding]"
      by (simp add: example_stores_def)
    show "sampled_binding \<in> set [sampled_binding]"
      by simp
    show "0 < count sampled_binding"
      by (simp add: sampled_binding_def)
    show "required_layout (descriptor_type sampled_binding) = Some VK_IMAGE_LAYOUT_SHADER_READ_ONLY_OPTIMAL"
      by (simp add: sampled_binding_def required_layout_def)
    show "slot_image (p_images image_7_bound) sampled_binding 0 = Some 7"
      by (simp add: slot_image_def find_image_binding_def image_7_bound_def sampled_binding_def)
    show "iimage_store (example_stores sampled_binding) 7
        = Some \<lparr>vk_image = 70, image_view = 71, layout = VK_IMAGE_LAYOUT_UNDEFINED, access_mask = 0\<rparr>"
      by (simp add: example_stores_def)
    show "\<And>b' j' L'. b' \<in> set [sampled_binding] \<Longrightarrow> j' < count b'
        \<Longrightarrow> required_layout (descriptor_type b') = Some L'
        \<Longrightarrow> slot_image (p_images image_7_bound) b' j' = Some 7
        \<Longrightarrow> L' = VK_IMAGE_LAYOUT_SHADER_READ_ONLY_OPTIMAL
            \<and> read_access b' = read_access sampled_binding
            \<and> write_access b' = write_access sampled_binding"
      by (simp add: sampled_binding_def required_layout_def)
  qed
  then show ?thesis
    using sampled_example_succeeds by (simp add: sampled_binding_def)
qed

text \<open>
  The image 7 is first the target of a copy, which leaves it in layout \<open>General\<close>
  with access mask \<open>MemoryWrite\<close>, and is then bound at a storage-image binding that
  the shader only writes. The binding update succeeds and finds the layout right, so the
  tracked access mask stays \<open>MemoryWrite\<close>: it is not the reflected access
  \<open>ShaderWrite\<close>.
\<close>

theorem cgpu_cmd_update_bindings_access_counterexample:
  "descriptor_type written_storage_binding = VK_DESCRIPTOR_TYPE_STORAGE_IMAGE
   \<and> slot_image (p_images image_7_bound) written_storage_binding 0 = Some 7
   \<and> succeeded (cgpu_cmd_update_bindings stores_after_copy 1 1 image_7_bound)
   \<and> map_option layout (iimage_store (stores_after
         (cgpu_cmd_update_bindings stores_after_copy 1 1 image_7_bound)) 7)
       = Some VK_IMAGE_LAYOUT_GENERAL
   \<and> map_option access_mask (iimage_store (stores_after
         (cgpu_cmd_update_bindings stores_after_copy 1 1 image_7_bound)) 7)
       = Some VK_ACCESS_MEMORY_WRITE_BIT
   \<and> VK_ACCESS_MEMORY_WRITE_BIT \<noteq> VK_ACCESS_SHADER_WRITE_BIT"
  by code_simp

subsection \<open>The guard of the buffer infos\<close>

text \<open>
  A pipeline whose single layout binding is an array of 65 storage buffers, and
  user-supplied bindings for all 65 elements, each a valid and aligned buffer.
\<close>

definition overflow_stores :: cgpu_stores where
  "overflow_stores =
    \<lparr>idevice_store = [1 \<mapsto> \<lparr>minStorageBufferOffsetAlignment = 16\<rparr>],
     ibuffer_store = [1 \<mapsto> \<lparr>buffer = 1, buffer_size = 1024\<rparr>],
     iimage_store = Map.empty,
     ishader_store = [1 \<mapsto> [\<lparr>binding = 0, count = 65,
        descriptor_type = VK_DESCRIPTOR_TYPE_STORAGE_BUFFER, read_access = True,
        write_access = False\<rparr>]],
     ipipeline_store = [1 \<mapsto> \<lparr>descriptor_set_layout_bindings =
        [\<lparr>layout_binding = 0, descriptorType = VK_DESCRIPTOR_TYPE_STORAGE_BUFFER,
          descriptorCount = 65\<rparr>], shader = 1\<rparr>],
     icommand_buffer_store = [1 \<mapsto> \<lparr>device = 1\<rparr>],
     isampler_store = Map.empty\<rparr>"

definition overflow_bindings :: cgpu_bindings where
  "overflow_bindings =
    \<lparr>p_buffers = map (\<lambda>k. \<lparr>buffer_binding = 0, buffer_index = k, bound_buffer = 1,
                              offset = 0, bound_size = CGPU_WHOLE_SIZE\<rparr>) [0..<65],
     p_images = [], p_samplers = []\<rparr>"

text \<open>
  With no image and no sampler bound, \<open>image_info_count\<close> stays 0, so the guard in
  front of the buffer infos never fires: whatever the number of buffer infos already
  stored, the next one is stored.
\<close>

lemma update_slot_buffer_unguarded:
  assumes "descriptorType lb = VK_DESCRIPTOR_TYPE_STORAGE_BUFFER"
    and "find (\<lambda>bb. \<not> (buffer_binding bb \<noteq> layout_binding lb \<or> buffer_index bb \<noteq> j))
           (p_buffers bindings) = Some bb"
    and "ibuffer_store s (bound_buffer bb) = Some ibuffer"
    and "offset bb mod minStorageBufferOffsetAlignment idevice = 0"
    and "length (image_infos st) < MAX_DESCRIPTOR_BUFFER_INFOS"
    and "length (buffer_infos st) \<ge> MAX_DESCRIPTOR_BUFFER_INFOS"
  shows "update_slot s idevice bindings lb j st = Inl OutOfBoundsWrite"
  using assms by (simp add: update_slot_def array_store_def)

text \<open>
  Claim C8 at that input: \<open>cgpu_cmd_update_bindings\<close> does not return
  \<open>HardcodedLimitReached\<close>; it stores the 65th buffer info at index 64 of the array
  of \<open>MAX_DESCRIPTOR_BUFFER_INFOS = 64\<close> elements.
\<close>

theorem cgpu_cmd_update_bindings_buffer_info_overflow:
  "cgpu_cmd_update_bindings overflow_stores 1 1 overflow_bindings
   = Inl (OutOfBoundsWrite, overflow_stores)"
  by code_simp

section \<open>Device abstraction: resource constructors of \<open>cgpu.c\<close>\<close>

text \<open>
  Modelled from the spec: \<open>handle_store.c\<close> is missing (\<open>resource_store.c\<close> only
  forwards to it). A store keeps a generation for every slot and a free list of slots. A
  handle is a slot index with a generation; it is valid iff its slot is allocated and its
  generation is the current generation of the slot. Creating a handle takes a slot from
  the free list, or a new slot when the list is empty. Freeing a valid handle returns its
  slot to the free list with the generation incremented (30 bits wide); freeing a handle
  that is not valid changes nothing.
\<close>

record store_handle =
  slot :: nat
  generation :: nat

record handle_store =
  generations :: "nat \<Rightarrow> nat"
  allocated :: "nat \<Rightarrow> bool"
  free_list :: "nat list"
  slot_count :: nat

definition handle_store_is_handle_valid :: "handle_store \<Rightarrow> store_handle \<Rightarrow> bool" where
  "handle_store_is_handle_valid hs h \<longleftrightarrow> allocated hs (slot h) \<and> generations hs (slot h) = generation h"

definition handle_store_create_handle :: "handle_store \<Rightarrow> store_handle \<times> handle_store" where
  "handle_store_create_handle hs =
    (case free_list hs of
       i # rest \<Rightarrow>
         (\<lparr>slot = i, generation = generations hs i\<rparr>,
          hs\<lparr>allocated := (allocated hs)(i := True), free_list := rest\<rparr>)
     | [] \<Rightarrow>
         (\<lparr>slot = slot_count hs, generation = generations hs (slot_count hs)\<rparr>,
          hs\<lparr>allocated := (allocated hs)(slot_count hs := True),
              slot_count := Suc (slot_count hs)\<rparr>))"

definition handle_store_free_handle :: "handle_store \<Rightarrow> store_handle \<Rightarrow> handle_store" where
  "handle_store_free_handle hs h =
    (if handle_store_is_handle_valid hs h
     then hs\<lparr>generations := (generations hs)(slot h := (generations hs (slot h) + 1) mod 2 ^ 30),
             allocated := (allocated hs)(slot h := False),
             free_list := slot h # free_list hs\<rparr>
     else hs)"

text \<open>A store in which nothing has been allocated yet.\<close>

definition handle_store_create :: handle_store where
  "handle_store_create =
    \<lparr>generations = (\<lambda>i. 0), allocated = (\<lambda>i. False), free_list = [], slot_count = 0\<rparr>"

text \<open>
  The slots on the free list and the slots never handed out are not allocated: this
  holds of the empty store and is kept by creating and by freeing.
\<close>

definition handle_store_wf :: "handle_store \<Rightarrow> bool" where
  "handle_store_wf hs \<longleftrightarrow>
    (\<forall>i \<in> set (free_list hs). \<not> allocated hs i) \<and> (\<forall>i \<ge> slot_count hs. \<not> allocated hs i)
    \<and> distinct (free_list hs)"

text \<open>
  The stores of \<open>cgpu.c\<close> that the modelled constructors touch, and the results of
  the driver calls, which are inputs.
\<close>

record cgpu_handle_stores =
  device_handles :: handle_store
  sampler_handles :: handle_store
  fence_handles :: handle_store
  pipeline_handles :: handle_store
  shader_handles :: handle_store
  command_buffer_handles :: handle_store

datatype VkResult = VK_SUCCESS | VK_ERROR_OUT_OF_HOST_MEMORY | VK_ERROR_OUT_OF_DEVICE_MEMORY

text \<open>
  A constructor returns its \<open>bool\<close>, the handle it has written through its out
  parameter (\<open>None\<close> when it returned before writing one) and the stores.
\<close>

type_synonym create_result = "bool \<times> store_handle option \<times> cgpu_handle_stores"

definition cgpu_create_sampler :: "cgpu_handle_stores \<Rightarrow> store_handle \<Rightarrow> VkResult \<Rightarrow> create_result" where
  "cgpu_create_sampler s dev vkCreateSampler =
    (if \<not> handle_store_is_handle_valid (device_handles s) dev then (False, None, s)
     else
       let (h, hs) = handle_store_create_handle (sampler_handles s);
           s = s\<lparr>sampler_handles := hs\<rparr>
       in if \<not> handle_store_is_handle_valid (sampler_handles s) h then (False, Some h, s)
          else if vkCreateSampler \<noteq> VK_SUCCESS
          then (False, Some h,
                s\<lparr>sampler_handles := handle_store_free_handle (sampler_handles s) h\<rparr>)
          else (True, Some h, s))"

definition cgpu_create_fence :: "cgpu_handle_stores \<Rightarrow> store_handle \<Rightarrow> VkResult \<Rightarrow> create_result" where
  "cgpu_create_fence s dev vkCreateFence =
    (if \<not> handle_store_is_handle_valid (device_handles s) dev then (False, None, s)
     else
       let (h, hs) = handle_store_create_handle (fence_handles s);
           s = s\<lparr>fence_handles := hs\<rparr>
       in if \<not> handle_store_is_handle_valid (fence_handles s) h then (False, Some h, s)
          else if vkCreateFence \<noteq> VK_SUCCESS
          then (False, Some h, s\<lparr>fence_handles := handle_store_free_handle (fence_handles s) h\<rparr>)
          else (True, Some h, s))"

text \<open>
  \<open>cgpu_create_pipeline\<close>: the two helpers \<open>cgpu_create_pipeline_descriptors\<close> and
  \<open>cgpu_create_pipeline_layout\<close> and the call \<open>vkCreateComputePipelines\<close> can each
  fail; every one of the three failure branches frees the handle.
\<close>

definition cgpu_create_pipeline ::
  "cgpu_handle_stores \<Rightarrow> store_handle \<Rightarrow> store_handle \<Rightarrow> bool \<Rightarrow> bool \<Rightarrow> VkResult \<Rightarrow> create_result" where
  "cgpu_create_pipeline s dev shdr create_pipeline_descriptors create_pipeline_layout
      vkCreateComputePipelines =
    (if \<not> handle_store_is_handle_valid (device_handles s) dev then (False, None, s)
     else if \<not> handle_store_is_handle_valid (shader_handles s) shdr then (False, None, s)
     else
       let (h, hs) = handle_store_create_handle (pipeline_handles s);
           s = s\<lparr>pipeline_handles := hs\<rparr>
       in if \<not> handle_store_is_handle_valid (pipeline_handles s) h then (False, Some h, s)
          else if \<not> create_pipeline_descriptors
          then (False, Some h,
                s\<lparr>pipeline_handles := handle_store_free_handle (pipeline_handles s) h\<rparr>)
          else if \<not> create_pipeline_layout
          then (False, Some h,
                s\<lparr>pipeline_handles := handle_store_free_handle (pipeline_handles s) h\<rparr>)
          else if vkCreateComputePipelines \<noteq> VK_SUCCESS
          then (False, Some h,
                s\<lparr>pipeline_handles := handle_store_free_handle (pipeline_handles s) h\<rparr>)
          else (True, Some h, s))"

text \<open>
  \<open>cgpu_create_command_buffer\<close>: when \<open>vkAllocateCommandBuffers\<close> fails the source
  reports the error and returns; there is no call of \<open>resource_store_free_handle\<close> on
  this path.
\<close>

definition cgpu_create_command_buffer ::
  "cgpu_handle_stores \<Rightarrow> store_handle \<Rightarrow> VkResult \<Rightarrow> create_result" where
  "cgpu_create_command_buffer s dev vkAllocateCommandBuffers =
    (if \<not> handle_store_is_handle_valid (device_handles s) dev then (False, None, s)
     else
       let (h, hs) = handle_store_create_handle (command_buffer_handles s);
           s = s\<lparr>command_buffer_handles := hs\<rparr>
       in if \<not> handle_store_is_handle_valid (command_buffer_handles s) h then (False, Some h, s)
          else if vkAllocateCommandBuffers \<noteq> VK_SUCCESS then (False, Some h, s)
          else (True, Some h, s))"

subsection \<open>Creating a handle and freeing it again\<close>

lemma create_handle_valid:
  "handle_store_create_handle hs = (h, hs') \<Longrightarrow> handle_store_is_handle_valid hs' h"
  by (auto simp: handle_store_create_handle_def handle_store_is_handle_valid_def
      split: list.splits)

lemma create_handle_fresh:
  "handle_store_wf hs \<Longrightarrow> handle_store_create_handle hs = (h, hs') \<Longrightarrow> \<not> allocated hs (slot h)"
  by (auto simp: handle_store_create_handle_def handle_store_wf_def split: list.splits)

lemma create_free_valid:
  assumes "handle_store_wf hs" "handle_store_create_handle hs = (h, hs')"
  shows "handle_store_is_handle_valid (handle_store_free_handle hs' h) h'
    \<longleftrightarrow> handle_store_is_handle_valid hs h'"
proof -
  have v: "handle_store_is_handle_valid hs' h"
    using assms(2) by (rule create_handle_valid)
  have f: "\<not> allocated hs (slot h)"
    using assms by (rule create_handle_fresh)
  have a: "allocated hs' = (allocated hs)(slot h := True)" and g: "generations hs' = generations hs"
    using assms(2) by (auto simp: handle_store_create_handle_def split: list.splits)
  show ?thesis
    using v f by (auto simp: handle_store_free_handle_def handle_store_is_handle_valid_def a g)
qed

text \<open>
  The constructors of samplers, fences and pipelines: when the driver call fails after
  the handle has been created, the constructor returns \<open>false\<close>, the handle it wrote
  is not valid, and the handles that were valid before are the handles that are valid
  afterwards.
\<close>

lemma cgpu_create_sampler_failure:
  assumes "handle_store_wf (sampler_handles s)" "vkCreateSampler \<noteq> VK_SUCCESS"
    "cgpu_create_sampler s dev vkCreateSampler = (ok, Some h, s')"
  shows "\<not> ok \<and> \<not> handle_store_is_handle_valid (sampler_handles s') h
    \<and> (\<forall>h'. handle_store_is_handle_valid (sampler_handles s') h'
           \<longleftrightarrow> handle_store_is_handle_valid (sampler_handles s) h')"
proof -
  obtain h0 hs where c: "handle_store_create_handle (sampler_handles s) = (h0, hs)"
    by (cases "handle_store_create_handle (sampler_handles s)")
  have v: "handle_store_is_handle_valid hs h0"
    using c by (rule create_handle_valid)
  from assms(2,3) c v have r: "\<not> ok" "h = h0" "sampler_handles s' = handle_store_free_handle hs h0"
    by (auto simp: cgpu_create_sampler_def Let_def split: if_splits)
  have e: "\<And>h'. handle_store_is_handle_valid (sampler_handles s') h'
      \<longleftrightarrow> handle_store_is_handle_valid (sampler_handles s) h'"
    unfolding r(3) using assms(1) c by (rule create_free_valid)
  have "\<not> handle_store_is_handle_valid (sampler_handles s) h0"
    using create_handle_fresh [OF assms(1) c] by (simp add: handle_store_is_handle_valid_def)
  with e r show ?thesis
    by simp
qed

lemma cgpu_create_fence_failure:
  assumes "handle_store_wf (fence_handles s)" "vkCreateFence \<noteq> VK_SUCCESS"
    "cgpu_create_fence s dev vkCreateFence = (ok, Some h, s')"
  shows "\<not> ok \<and> \<not> handle_store_is_handle_valid (fence_handles s') h
    \<and> (\<forall>h'. handle_store_is_handle_valid (fence_handles s') h'
           \<longleftrightarrow> handle_store_is_handle_valid (fence_handles s) h')"
proof -
  obtain h0 hs where c: "handle_store_create_handle (fence_handles s) = (h0, hs)"
    by (cases "handle_store_create_handle (fence_handles s)")
  have v: "handle_store_is_handle_valid hs h0"
    using c by (rule create_handle_valid)
  from assms(2,3) c v have r: "\<not> ok" "h = h0" "fence_handles s' = handle_store_free_handle hs h0"
    by (auto simp: cgpu_create_fence_def Let_def split: if_splits)
  have e: "\<And>h'. handle_store_is_handle_valid (fence_handles s') h'
      \<longleftrightarrow> handle_store_is_handle_valid (fence_handles s) h'"
    unfolding r(3) using assms(1) c by (rule create_free_valid)
  have "\<not> handle_store_is_handle_valid (fence_handles s) h0"
    using create_handle_fresh [OF assms(1) c] by (simp add: handle_store_is_handle_valid_def)
  with e r show ?thesis
    by simp
qed

lemma cgpu_create_pipeline_failure:
  assumes "handle_store_wf (pipeline_handles s)"
    "\<not> create_pipeline_descriptors \<or> \<not> create_pipeline_layout \<or> vkCreateComputePipelines \<noteq> VK_SUCCESS"
    "cgpu_create_pipeline s dev shdr create_pipeline_descriptors create_pipeline_layout
       vkCreateComputePipelines = (ok, Some h, s')"
  shows "\<not> ok \<and> \<not> handle_store_is_handle_valid (pipeline_handles s') h
    \<and> (\<forall>h'. handle_store_is_handle_valid (pipeline_handles s') h'
           \<longleftrightarrow> handle_store_is_handle_valid (pipeline_handles s) h')"
proof -
  obtain h0 hs where c: "handle_store_create_handle (pipeline_handles s) = (h0, hs)"
    by (cases "handle_store_create_handle (pipeline_handles s)")
  have v: "handle_store_is_handle_valid hs h0"
    using c by (rule create_handle_valid)
  from assms(2,3) c v have r: "\<not> ok" "h = h0"
      "pipeline_handles s' = handle_store_free_handle hs h0"
    by (auto simp: cgpu_create_pipeline_def Let_def split: if_splits)
  have e: "\<And>h'. handle_store_is_handle_valid (pipeline_handles s') h'
      \<longleftrightarrow> handle_store_is_handle_valid (pipeline_handles s) h'"
    unfolding r(3) using assms(1) c by (rule create_free_valid)
  have "\<not> handle_store_is_handle_valid (pipeline_handles s) h0"
    using create_handle_fresh [OF assms(1) c] by (simp add: handle_store_is_handle_valid_def)
  with e r show ?thesis
    by simp
qed

text \<open>
  The stores of a program that has created one device and nothing else, and the handle
  of that device.
\<close>

definition one_device :: cgpu_handle_stores where
  "one_device =
    \<lparr>device_handles = snd (handle_store_create_handle handle_store_create),
     sampler_handles = handle_store_create, fence_handles = handle_store_create,
     pipeline_handles = handle_store_create, shader_handles = handle_store_create,
     command_buffer_handles = handle_store_create\<rparr>"

definition the_device :: store_handle where
  "the_device = fst (handle_store_create_handle handle_store_create)"

text \<open>
  Claim C10 at \<open>cgpu_create_command_buffer\<close> on a valid device when
  \<open>vkAllocateCommandBuffers\<close> fails: the constructor returns \<open>false\<close>, and the handle
  it has written to its out parameter, which was not valid before the call, is valid
  after it. The handle is not freed.
\<close>

theorem cgpu_create_command_buffer_keeps_handle:
  "handle_store_is_handle_valid (device_handles one_device) the_device
   \<and> fst (cgpu_create_command_buffer one_device the_device VK_ERROR_OUT_OF_HOST_MEMORY) = False
   \<and> fst (snd (cgpu_create_command_buffer one_device the_device VK_ERROR_OUT_OF_HOST_MEMORY))
       = Some \<lparr>slot = 0, generation = 0\<rparr>
   \<and> \<not> handle_store_is_handle_valid (command_buffer_handles one_device)
         \<lparr>slot = 0, generation = 0\<rparr>
   \<and> handle_store_is_handle_valid
        (command_buffer_handles
          (snd (snd (cgpu_create_command_buffer one_device the_device VK_ERROR_OUT_OF_HOST_MEMORY))))
        \<lparr>slot = 0, generation = 0\<rparr>"
  by (simp add: cgpu_create_command_buffer_def one_device_def the_device_def
      handle_store_create_handle_def handle_store_create_def handle_store_is_handle_valid_def)

section \<open>Gamma correction: \<open>AccurateLinearToSrgb\<close>\<close>

text \<open>
  \<open>AccurateLinearToSrgb\<close> of \<open>main.cpp\<close> works on \<open>float\<close>. A binary32 number is
  read as the real number it denotes, and every operation of the source is the exact
  operation followed by \<open>round32\<close>, the rounding to the nearest binary32 number with
  ties to the even significand: the unit in the last place of \<open>x\<close> is \<open>2\<close> to the
  power \<open>\<lfloor>log2 |x|\<rfloor> - 23\<close>, and \<open>2^-149\<close> in the subnormal range. Overflow is not
  modelled: no result of the function for an argument in \<open>[0, 1]\<close> is as large as
  \<open>2^128\<close>. \<open>std::pow\<close> on two \<open>float\<close>s is the \<open>powf\<close> of the C library; the source
  does not fix how it rounds, so it is the parameter \<open>powf\<close> of the model.
\<close>

definition round_half_even :: "real \<Rightarrow> int" where
  "round_half_even y =
    (let f = \<lfloor>y\<rfloor>; r = y - of_int f
     in if r < 1 / 2 then f else if 1 / 2 < r then f + 1 else if even f then f else f + 1)"

definition ulp32_exp :: "real \<Rightarrow> int" where
  "ulp32_exp x = max \<lfloor>log 2 \<bar>x\<bar>\<rfloor> (- 126) - 23"

definition round32 :: "real \<Rightarrow> real" where
  "round32 x =
    (if x = 0 then 0
     else of_int (round_half_even (x / 2 powi ulp32_exp x)) * 2 powi ulp32_exp x)"

text \<open>The literals \<open>12.92f\<close>, \<open>1.055f\<close>, \<open>0.055f\<close>, \<open>0.0031308f\<close> and \<open>1.0f / 2.4f\<close>.\<close>

definition lit_12_92 :: real where "lit_12_92 = round32 12.92"
definition lit_1_055 :: real where "lit_1_055 = round32 1.055"
definition lit_0_055 :: real where "lit_0_055 = round32 0.055"
definition lit_0_0031308 :: real where "lit_0_0031308 = round32 0.0031308"
definition lit_2_4 :: real where "lit_2_4 = round32 2.4"
definition lit_1_0_div_2_4 :: real where "lit_1_0_div_2_4 = round32 (1 / lit_2_4)"

text \<open>The two locals \<open>sRgbLo\<close> and \<open>sRgbHi\<close> of the function, and its result.\<close>

definition sRgbLo :: "real \<Rightarrow> real" where
  "sRgbLo linearValue = round32 (linearValue * lit_12_92)"

definition sRgbHi :: "(real \<Rightarrow> real \<Rightarrow> real) \<Rightarrow> real \<Rightarrow> real" where
  "sRgbHi powf linearValue =
    round32 (round32 (powf \<bar>linearValue\<bar> lit_1_0_div_2_4 * lit_1_055) - lit_0_055)"

definition AccurateLinearToSrgb :: "(real \<Rightarrow> real \<Rightarrow> real) \<Rightarrow> real \<Rightarrow> real" where
  "AccurateLinearToSrgb powf linearValue =
    (if linearValue \<le> lit_0_0031308 then sRgbLo linearValue else sRgbHi powf linearValue)"

subsection \<open>Rounding a given number\<close>

text \<open>The rounding of a number whose binade is known, and the values of the literals.\<close>

lemma ulp32_exp_eq:
  assumes "2 powi k \<le> \<bar>x\<bar>" "\<bar>x\<bar> < 2 powi (k + 1)"
  shows "ulp32_exp x = max k (- 126) - 23"
proof -
  have "(0::real) < 2 powi k"
    by simp
  with assms(1) have pos: "0 < \<bar>x\<bar>"
    by linarith
  have a: "(2::real) powr real_of_int k = 2 powi k"
    by (rule powr_real_of_int') simp_all
  have "(2::real) powr (real_of_int k + 1) = 2 powr real_of_int (k + 1)"
    by simp
  also have "\<dots> = 2 powi (k + 1)"
    by (rule powr_real_of_int') simp_all
  finally have b: "(2::real) powr (real_of_int k + 1) = 2 powi (k + 1)" .
  have "\<lfloor>log 2 \<bar>x\<bar>\<rfloor> = k"
    using assms by (simp add: floor_log_eq_powr_iff [OF pos] a b)
  then show ?thesis
    by (simp add: ulp32_exp_def)
qed

lemma round32_eq:
  assumes "2 powi k \<le> \<bar>x\<bar>" "\<bar>x\<bar> < 2 powi (k + 1)"
  shows "round32 x = of_int (round_half_even (x / 2 powi (max k (- 126) - 23))) * 2 powi (max k (- 126) - 23)"
proof -
  have "(0::real) < 2 powi k"
    by simp
  with assms(1) have "0 < \<bar>x\<bar>"
    by linarith
  then have "x \<noteq> 0"
    by simp
  then show ?thesis
    by (simp add: round32_def ulp32_exp_eq [OF assms])
qed

lemma round32_0: "round32 0 = 0"
  by (simp add: round32_def)

lemma lit_12_92: "lit_12_92 = 6773801 / 2 ^ 19"
  unfolding lit_12_92_def
  by (subst round32_eq [of 3]) (simp_all add: round_half_even_def power_int_minus field_simps)

lemma lit_1_055: "lit_1_055 = 8849981 / 2 ^ 23"
  unfolding lit_1_055_def
  by (subst round32_eq [of 0]) (simp_all add: round_half_even_def power_int_minus field_simps)

lemma lit_0_055: "lit_0_055 = 7381975 / 2 ^ 27"
  unfolding lit_0_055_def
  by (subst round32_eq [of "- 5"]) (simp_all add: round_half_even_def power_int_minus field_simps)

lemma lit_0_0031308: "lit_0_0031308 = 3361671 / 2 ^ 30"
  unfolding lit_0_0031308_def
  by (subst round32_eq [of "- 9"]) (simp_all add: round_half_even_def power_int_minus field_simps)

lemma lit_2_4: "lit_2_4 = 5033165 / 2 ^ 21"
  unfolding lit_2_4_def
  by (subst round32_eq [of 1]) (simp_all add: round_half_even_def power_int_minus field_simps)

lemma lit_1_0_div_2_4: "lit_1_0_div_2_4 = 13981013 / 2 ^ 25"
  unfolding lit_1_0_div_2_4_def lit_2_4
  by (subst round32_eq [of "- 2"]) (simp_all add: round_half_even_def power_int_minus field_simps)

lemma AccurateLinearToSrgb_0: "AccurateLinearToSrgb powf 0 = 0"
  by (simp add: AccurateLinearToSrgb_def sRgbLo_def round32_0 lit_0_0031308)

lemma sRgbHi_1:
  assumes "powf 1 lit_1_0_div_2_4 = 1"
  shows "sRgbHi powf 1 = 16777215 / 2 ^ 24"
proof -
  have r1: "round32 (8849981 / 2 ^ 23) = 8849981 / 2 ^ 23"
    by (subst round32_eq [of 0]) (simp_all add: round_half_even_def power_int_minus field_simps)
  have r2: "round32 (8849981 / 2 ^ 23 - 7381975 / 2 ^ 27) = 16777215 / 2 ^ 24"
    by (subst round32_eq [of "- 1"]) (simp_all add: round_half_even_def power_int_minus field_simps)
  have "sRgbHi powf 1 = round32 (round32 (1 * (8849981 / 2 ^ 23)) - 7381975 / 2 ^ 27)"
    by (simp only: sRgbHi_def abs_one assms lit_1_055 lit_0_055)
  also have "\<dots> = round32 (round32 (8849981 / 2 ^ 23) - 7381975 / 2 ^ 27)"
    by (simp only: mult_1)
  also have "\<dots> = round32 (8849981 / 2 ^ 23 - 7381975 / 2 ^ 27)"
    by (simp only: r1)
  also have "\<dots> = 16777215 / 2 ^ 24"
    by (rule r2)
  finally show ?thesis .
qed

lemma AccurateLinearToSrgb_1:
  assumes "powf 1 lit_1_0_div_2_4 = 1"
  shows "AccurateLinearToSrgb powf 1 = 16777215 / 2 ^ 24"
  using sRgbHi_1 [of powf, OF assms] by (simp add: AccurateLinearToSrgb_def lit_0_0031308)

lemma sRgbLo_threshold: "sRgbLo lit_0_0031308 = 10858197 / 2 ^ 28"
  unfolding sRgbLo_def lit_0_0031308 lit_12_92
  by (subst round32_eq [of "- 5"]) (simp_all add: round_half_even_def power_int_minus field_simps)

lemma AccurateLinearToSrgb_threshold:
  "AccurateLinearToSrgb powf lit_0_0031308 = 10858197 / 2 ^ 28"
  by (simp add: AccurateLinearToSrgb_def sRgbLo_threshold)

subsection \<open>Rounding is monotonic\<close>

lemma round_half_even_mono:
  assumes "x \<le> y"
  shows "round_half_even x \<le> round_half_even y"
proof -
  have f: "\<lfloor>x\<rfloor> \<le> \<lfloor>y\<rfloor>"
    using assms by (rule floor_mono)
  show ?thesis
  proof (cases "\<lfloor>x\<rfloor> = \<lfloor>y\<rfloor>")
    case True
    with assms show ?thesis
      by (auto simp: round_half_even_def Let_def)
  next
    case False
    with f have "\<lfloor>x\<rfloor> + 1 \<le> \<lfloor>y\<rfloor>"
      by simp
    moreover have "round_half_even x \<le> \<lfloor>x\<rfloor> + 1"
      by (simp add: round_half_even_def Let_def)
    moreover have "\<lfloor>y\<rfloor> \<le> round_half_even y"
      by (simp add: round_half_even_def Let_def)
    ultimately show ?thesis
      by linarith
  qed
qed

lemma round_half_even_of_int: "round_half_even (of_int n) = n"
  by (simp add: round_half_even_def)

lemma round_half_even_minus: "round_half_even (- y) = - round_half_even y"
proof (cases "y = of_int \<lfloor>y\<rfloor>")
  case True
  then obtain n where "y = of_int n"
    by blast
  then show ?thesis
    by (simp add: round_half_even_of_int flip: of_int_minus)
next
  case False
  then have lt: "of_int \<lfloor>y\<rfloor> < y"
    using of_int_floor_le [of y] by linarith
  have "\<lfloor>- y\<rfloor> = - \<lfloor>y\<rfloor> - 1"
    using lt by (intro floor_unique) (simp_all, linarith+)
  then show ?thesis
    using lt by (auto simp: round_half_even_def Let_def)
qed

lemma round32_minus: "round32 (- x) = - round32 x"
  by (simp add: round32_def ulp32_exp_def round_half_even_minus)

lemma round32_nonneg:
  assumes "0 \<le> x"
  shows "0 \<le> round32 x"
proof -
  have "0 \<le> x / 2 powi ulp32_exp x"
    using assms by simp
  then have "round_half_even 0 \<le> round_half_even (x / 2 powi ulp32_exp x)"
    by (rule round_half_even_mono)
  then have "0 \<le> round_half_even (x / 2 powi ulp32_exp x)"
    using round_half_even_of_int [of 0] by simp
  then show ?thesis
    by (simp add: round32_def)
qed

lemma ulp32_exp_mono:
  assumes "0 < x" "x \<le> y"
  shows "ulp32_exp x \<le> ulp32_exp y"
proof -
  have "log 2 x \<le> log 2 y"
    using assms by simp
  then have "\<lfloor>log 2 x\<rfloor> \<le> \<lfloor>log 2 y\<rfloor>"
    by (rule floor_mono)
  then show ?thesis
    using assms by (simp add: ulp32_exp_def)
qed

lemma round32_mono_pos:
  assumes "0 < x" "x \<le> y"
  shows "round32 x \<le> round32 y"
proof -
  have y: "0 < y"
    using assms by linarith
  define ex where "ex = ulp32_exp x"
  define ey where "ey = ulp32_exp y"
  have le: "ex \<le> ey"
    unfolding ex_def ey_def using assms by (rule ulp32_exp_mono)
  have rx: "round32 x = of_int (round_half_even (x / 2 powi ex)) * 2 powi ex"
    using assms(1) by (simp add: round32_def ex_def)
  have ry: "round32 y = of_int (round_half_even (y / 2 powi ey)) * 2 powi ey"
    using y by (simp add: round32_def ey_def)
  show ?thesis
  proof (cases "ex = ey")
    case True
    have "x / 2 powi ey \<le> y / 2 powi ey"
      using assms(2) by (simp add: divide_right_mono)
    then have "round_half_even (x / 2 powi ey) \<le> round_half_even (y / 2 powi ey)"
      by (rule round_half_even_mono)
    then show ?thesis
      unfolding rx ry True by (simp add: mult_right_mono)
  next
    case False
    with le have lt: "ex < ey"
      by simp
    define k where "k = \<lfloor>log 2 y\<rfloor>"
    have ex_low: "- 149 \<le> ex"
      by (simp add: ex_def ulp32_exp_def)
    have ey_k: "ey = k - 23"
      using lt ex_low y by (simp add: ey_def ulp32_exp_def k_def max_def split: if_splits)
    define fx where "fx = \<lfloor>log 2 x\<rfloor>"
    have "ex = max fx (- 126) - 23"
      using assms(1) by (simp add: ex_def ulp32_exp_def fx_def)
    with lt ey_k have "fx < k"
      by linarith
    then have kx: "\<lfloor>log 2 x\<rfloor> < k"
      by (simp only: fx_def)
    have pk: "(2::real) powr real_of_int k = 2 powi k"
      by (rule powr_real_of_int') simp_all
    have gy: "2 powi k \<le> y"
    proof -
      have "real_of_int k \<le> log 2 y"
        unfolding k_def by simp
      then have "2 powr real_of_int k \<le> y"
        using y by (simp add: le_log_iff)
      then show ?thesis
        by (simp only: pk)
    qed
    have xg: "x \<le> 2 powi k"
    proof -
      have "log 2 x < real_of_int k"
        using kx by (simp add: floor_less_iff)
      then have "x < 2 powr real_of_int k"
        using assms(1) by (simp add: log_less_iff)
      then show ?thesis
        by (simp only: pk)
    qed
    have "round32 x \<le> 2 powi k"
    proof -
      define n where "n = nat (k - ex)"
      have n: "int n = k - ex"
        using lt ey_k by (simp add: n_def)
      have q: "2 powi k / 2 powi ex = (of_int (2 ^ n) :: real)"
        by (simp add: power_int_diff [symmetric] flip: n power_int_of_nat)
      have "x / 2 powi ex \<le> 2 powi k / 2 powi ex"
        using xg by (simp add: divide_right_mono)
      then have "round_half_even (x / 2 powi ex) \<le> round_half_even (2 powi k / 2 powi ex)"
        by (rule round_half_even_mono)
      then have "round_half_even (x / 2 powi ex) \<le> 2 ^ n"
        unfolding q round_half_even_of_int .
      then have "real_of_int (round_half_even (x / 2 powi ex)) \<le> real_of_int (2 ^ n)"
        by (rule of_int_le_iff [THEN iffD2])
      then have "round32 x \<le> of_int (2 ^ n) * 2 powi ex"
        unfolding rx by (simp add: mult_right_mono)
      also have "\<dots> = 2 powi k"
        using q by (simp add: field_simps)
      finally show ?thesis .
    qed
    moreover have "2 powi k \<le> round32 y"
    proof -
      have q: "2 powi k / 2 powi ey = (of_int (2 ^ 23) :: real)"
        by (simp add: ey_k power_int_diff [symmetric])
      have "2 powi k / 2 powi ey \<le> y / 2 powi ey"
        using gy by (simp add: divide_right_mono)
      then have "round_half_even (2 powi k / 2 powi ey) \<le> round_half_even (y / 2 powi ey)"
        by (rule round_half_even_mono)
      then have "2 ^ 23 \<le> round_half_even (y / 2 powi ey)"
        unfolding q round_half_even_of_int .
      then have "real_of_int (2 ^ 23) \<le> real_of_int (round_half_even (y / 2 powi ey))"
        by (rule of_int_le_iff [THEN iffD2])
      then have "of_int (2 ^ 23) * 2 powi ey \<le> round32 y"
        unfolding ry by (simp add: mult_right_mono)
      moreover have "of_int (2 ^ 23) * 2 powi ey = (2::real) powi k"
        using q by (simp add: field_simps)
      ultimately show ?thesis
        by simp
    qed
    ultimately show ?thesis
      by linarith
  qed
qed

lemma round32_mono:
  assumes "x \<le> y"
  shows "round32 x \<le> round32 y"
proof -
  consider "0 < x" | "x \<le> 0" "0 \<le> y" | "y < 0"
    using assms by linarith
  then show ?thesis
  proof cases
    case 1
    then show ?thesis
      using assms by (rule round32_mono_pos)
  next
    case 2
    from 2(1) have "0 \<le> round32 (- x)"
      by (intro round32_nonneg) simp
    then have "round32 x \<le> 0"
      by (simp add: round32_minus)
    moreover from 2(2) have "0 \<le> round32 y"
      by (rule round32_nonneg)
    ultimately show ?thesis
      by linarith
  next
    case 3
    then have "0 < - y" "- y \<le> - x"
      using assms by simp_all
    then have "round32 (- y) \<le> round32 (- x)"
      by (rule round32_mono_pos)
    then show ?thesis
      by (simp add: round32_minus)
  qed
qed

subsection \<open>The two branches\<close>

text \<open>The power branch as a function of what \<open>std::pow\<close> returned.\<close>

definition hi_of :: "real \<Rightarrow> real" where
  "hi_of p = round32 (round32 (p * lit_1_055) - lit_0_055)"

lemma sRgbHi_hi_of: "sRgbHi powf x = hi_of (powf (abs x) lit_1_0_div_2_4)"
  by (simp add: sRgbHi_def hi_of_def)

lemma hi_of_mono:
  assumes "p \<le> q"
  shows "hi_of p \<le> hi_of q"
proof -
  have "p * lit_1_055 \<le> q * lit_1_055"
    using assms by (simp add: lit_1_055 mult_right_mono)
  then have "round32 (p * lit_1_055) \<le> round32 (q * lit_1_055)"
    by (rule round32_mono)
  then have "round32 (p * lit_1_055) - lit_0_055 \<le> round32 (q * lit_1_055) - lit_0_055"
    by simp
  then show ?thesis
    unfolding hi_of_def by (rule round32_mono)
qed

lemma sRgbLo_mono:
  assumes "x \<le> y"
  shows "sRgbLo x \<le> sRgbLo y"
proof -
  have "x * lit_12_92 \<le> y * lit_12_92"
    using assms by (simp add: lit_12_92 mult_right_mono)
  then show ?thesis
    unfolding sRgbLo_def by (rule round32_mono)
qed

lemma hi_of_value:
  assumes "round32 (p * (8849981 / 2 ^ 23)) = a" "round32 (a - 7381975 / 2 ^ 27) = b"
  shows "hi_of p = b"
  using assms by (simp only: hi_of_def lit_1_055 lit_0_055)

lemma hi_of_low: "hi_of (904735 / 10 ^ 7) = 5429045 / 2 ^ 27"
proof (rule hi_of_value)
  show "round32 (904735 / 10 ^ 7 * (8849981 / 2 ^ 23)) = 3202755 / 2 ^ 25"
    by (subst round32_eq [of "- 4"]) (simp_all add: round_half_even_def power_int_minus field_simps)
  show "round32 (3202755 / 2 ^ 25 - 7381975 / 2 ^ 27) = 5429045 / 2 ^ 27"
    by (subst round32_eq [of "- 5"]) (simp_all add: round_half_even_def power_int_minus field_simps)
qed

lemma hi_of_high: "hi_of (904742 / 10 ^ 7) = 678643 / 2 ^ 24"
proof (rule hi_of_value)
  show "round32 (904742 / 10 ^ 7 * (8849981 / 2 ^ 23)) = 12811119 / 2 ^ 27"
    by (subst round32_eq [of "- 4"]) (simp_all add: round_half_even_def power_int_minus field_simps)
  show "round32 (12811119 / 2 ^ 27 - 7381975 / 2 ^ 27) = 678643 / 2 ^ 24"
    by (subst round32_eq [of "- 5"]) (simp_all add: round_half_even_def power_int_minus field_simps)
qed

lemma hi_of_next: "hi_of (6071599 / 2 ^ 26) = 2714549 / 2 ^ 26"
proof (rule hi_of_value)
  show "round32 (6071599 / 2 ^ 26 * (8849981 / 2 ^ 23)) = 12811073 / 2 ^ 27"
    by (subst round32_eq [of "- 4"]) (simp_all add: round_half_even_def power_int_minus field_simps)
  show "round32 (12811073 / 2 ^ 27 - 7381975 / 2 ^ 27) = 2714549 / 2 ^ 26"
    by (subst round32_eq [of "- 5"]) (simp_all add: round_half_even_def power_int_minus field_simps)
qed

lemma boundary_gap:
  assumes "904735 / 10 ^ 7 \<le> p" "p \<le> 904742 / 10 ^ 7"
  shows "\<bar>sRgbLo lit_0_0031308 - hi_of p\<bar> < 1 / 10 ^ 6"
proof -
  have "5429045 / 2 ^ 27 \<le> hi_of p"
    using hi_of_mono [OF assms(1)] by (simp only: hi_of_low)
  moreover have "hi_of p \<le> 678643 / 2 ^ 24"
    using hi_of_mono [OF assms(2)] by (simp only: hi_of_high)
  ultimately have "hi_of p - 10858197 / 2 ^ 28 < 1 / 10 ^ 6" "10858197 / 2 ^ 28 - hi_of p < 1 / 10 ^ 6"
    by simp_all
  then show ?thesis
    unfolding sRgbLo_threshold abs_less_iff by simp
qed

lemma step_down:
  assumes "p \<le> 6071599 / 2 ^ 26"
  shows "hi_of p < sRgbLo lit_0_0031308"
proof -
  have "hi_of p \<le> 2714549 / 2 ^ 26"
    using hi_of_mono [OF assms] by (simp only: hi_of_next)
  then show ?thesis
    unfolding sRgbLo_threshold by simp
qed

subsection \<open>The curve\<close>

text \<open>
  Two functions in the place of \<open>std::pow\<close>: the correctly rounded power, and a
  stand-in that returns \<open>1\<close> at \<open>1\<close> and everywhere else \<open>12143195 / 2^27\<close>, the
  binary32 number \<open>0.09047385\<close> next to \<open>0.0031308f\<close> to the power \<open>1.0f / 2.4f\<close>.
\<close>

definition pow_rounded :: "real \<Rightarrow> real \<Rightarrow> real" where
  "pow_rounded x y = round32 (x powr y)"

definition pow_sample :: "real \<Rightarrow> real \<Rightarrow> real" where
  "pow_sample x y = (if x = 1 then 1 else 12143195 / 2 ^ 27)"

lemma round32_1: "round32 1 = 1"
  by (subst round32_eq [of 0]) (simp_all add: round_half_even_def power_int_minus field_simps)

lemma pow_rounded_1: "pow_rounded 1 y = 1"
  by (simp add: pow_rounded_def round32_1)

text \<open>
  C9. In binary32 the function is
  \<open>linear <= 0.0031308f ? linear * 12.92f : pow(|linear|, 1.0f / 2.4f) * 1.055f - 0.055f\<close>,
  with \<open>0.0031308f = 3361671 / 2^30\<close>, and the boundary itself goes to the linear
  branch. It maps \<open>0\<close> to \<open>0\<close>. It maps \<open>1\<close> to \<open>1 - 2^-24 = 0.99999994\<close>, not to
  \<open>1\<close>, for a \<open>pow\<close> with \<open>pow(1, y) = 1\<close>. It is monotonic on the linear
  branch, and on the power branch between any two arguments on which \<open>pow\<close> is. At
  the boundary the two branches differ by less than \<open>10^-6\<close> when \<open>pow\<close> returns
  there a number from \<open>0.0904735\<close> to \<open>0.0904742\<close>. Across the boundary the mapping
  falls: the binary32 number next above \<open>0.0031308f\<close> is mapped below the value at
  \<open>0.0031308f\<close> when \<open>pow\<close> returns for it at most \<open>6071599 / 2^26\<close>, which is three
  units in the last place above \<open>12143195 / 2^27\<close>.
\<close>

theorem AccurateLinearToSrgb_binary32:
  "lit_0_0031308 = 3361671 / 2 ^ 30
   \<and> AccurateLinearToSrgb powf lit_0_0031308 = sRgbLo lit_0_0031308
   \<and> AccurateLinearToSrgb powf 0 = 0
   \<and> (powf 1 lit_1_0_div_2_4 = 1 \<longrightarrow> AccurateLinearToSrgb powf 1 = 1 - 1 / 2 ^ 24)
   \<and> (x \<le> y \<and> y \<le> lit_0_0031308 \<longrightarrow>
        AccurateLinearToSrgb powf x \<le> AccurateLinearToSrgb powf y)
   \<and> (lit_0_0031308 < u \<and> u \<le> v \<and> powf (abs u) lit_1_0_div_2_4 \<le> powf (abs v) lit_1_0_div_2_4 \<longrightarrow>
        AccurateLinearToSrgb powf u \<le> AccurateLinearToSrgb powf v)
   \<and> (904735 / 10 ^ 7 \<le> powf (abs lit_0_0031308) lit_1_0_div_2_4
        \<and> powf (abs lit_0_0031308) lit_1_0_div_2_4 \<le> 904742 / 10 ^ 7 \<longrightarrow>
        \<bar>sRgbLo lit_0_0031308 - sRgbHi powf lit_0_0031308\<bar> < 1 / 10 ^ 6)
   \<and> (powf (abs (lit_0_0031308 + 1 / 2 ^ 32)) lit_1_0_div_2_4 \<le> 6071599 / 2 ^ 26 \<longrightarrow>
        AccurateLinearToSrgb powf (lit_0_0031308 + 1 / 2 ^ 32)
          < AccurateLinearToSrgb powf lit_0_0031308)"
proof (intro conjI impI)
  show "lit_0_0031308 = 3361671 / 2 ^ 30"
    by (rule lit_0_0031308)
  show "AccurateLinearToSrgb powf lit_0_0031308 = sRgbLo lit_0_0031308"
    by (simp add: AccurateLinearToSrgb_def)
  show "AccurateLinearToSrgb powf 0 = 0"
    by (rule AccurateLinearToSrgb_0)
next
  assume "powf 1 lit_1_0_div_2_4 = 1"
  then have "AccurateLinearToSrgb powf 1 = 16777215 / 2 ^ 24"
    by (rule AccurateLinearToSrgb_1)
  then show "AccurateLinearToSrgb powf 1 = 1 - 1 / 2 ^ 24"
    by simp
next
  assume "x \<le> y \<and> y \<le> lit_0_0031308"
  then show "AccurateLinearToSrgb powf x \<le> AccurateLinearToSrgb powf y"
    by (simp add: AccurateLinearToSrgb_def sRgbLo_mono)
next
  assume "lit_0_0031308 < u \<and> u \<le> v \<and> powf (abs u) lit_1_0_div_2_4 \<le> powf (abs v) lit_1_0_div_2_4"
  then show "AccurateLinearToSrgb powf u \<le> AccurateLinearToSrgb powf v"
    by (simp add: AccurateLinearToSrgb_def sRgbHi_hi_of hi_of_mono)
next
  assume "904735 / 10 ^ 7 \<le> powf (abs lit_0_0031308) lit_1_0_div_2_4
    \<and> powf (abs lit_0_0031308) lit_1_0_div_2_4 \<le> 904742 / 10 ^ 7"
  then show "\<bar>sRgbLo lit_0_0031308 - sRgbHi powf lit_0_0031308\<bar> < 1 / 10 ^ 6"
    unfolding sRgbHi_hi_of by (intro boundary_gap) simp_all
next
  assume "powf (abs (lit_0_0031308 + 1 / 2 ^ 32)) lit_1_0_div_2_4 \<le> 6071599 / 2 ^ 26"
  then have "hi_of (powf (abs (lit_0_0031308 + 1 / 2 ^ 32)) lit_1_0_div_2_4) < sRgbLo lit_0_0031308"
    by (rule step_down)
  moreover have "\<not> lit_0_0031308 + 1 / 2 ^ 32 \<le> lit_0_0031308"
    by simp
  ultimately show "AccurateLinearToSrgb powf (lit_0_0031308 + 1 / 2 ^ 32)
      < AccurateLinearToSrgb powf lit_0_0031308"
    by (simp add: AccurateLinearToSrgb_def sRgbHi_hi_of)
qed

theorem AccurateLinearToSrgb_binary32_witness:
  "pow_sample 1 lit_1_0_div_2_4 = 1
   \<and> AccurateLinearToSrgb pow_sample 1 = 1 - 1 / 2 ^ 24
   \<and> (0::real) \<le> 1 / 2 ^ 9 \<and> 1 / 2 ^ 9 \<le> lit_0_0031308
   \<and> AccurateLinearToSrgb pow_sample 0 \<le> AccurateLinearToSrgb pow_sample (1 / 2 ^ 9)
   \<and> lit_0_0031308 < 1 / 2 \<and> (1::real) / 2 \<le> 1
   \<and> pow_sample (abs (1 / 2)) lit_1_0_div_2_4 \<le> pow_sample (abs 1) lit_1_0_div_2_4
   \<and> AccurateLinearToSrgb pow_sample (1 / 2) \<le> AccurateLinearToSrgb pow_sample 1
   \<and> 904735 / 10 ^ 7 \<le> pow_sample (abs lit_0_0031308) lit_1_0_div_2_4
   \<and> pow_sample (abs lit_0_0031308) lit_1_0_div_2_4 \<le> 904742 / 10 ^ 7
   \<and> \<bar>sRgbLo lit_0_0031308 - sRgbHi pow_sample lit_0_0031308\<bar> < 1 / 10 ^ 6
   \<and> pow_sample (abs (lit_0_0031308 + 1 / 2 ^ 32)) lit_1_0_div_2_4 \<le> 6071599 / 2 ^ 26
   \<and> AccurateLinearToSrgb pow_sample (lit_0_0031308 + 1 / 2 ^ 32)
        < AccurateLinearToSrgb pow_sample lit_0_0031308"
proof -
  note T = AccurateLinearToSrgb_binary32 [where powf = pow_sample and x = 0 and y = "1 / 2 ^ 9"
      and u = "1 / 2" and v = 1]
  have h1: "pow_sample 1 lit_1_0_div_2_4 = 1"
    by (simp add: pow_sample_def)
  have h2: "(0::real) \<le> 1 / 2 ^ 9" "1 / 2 ^ 9 \<le> lit_0_0031308"
    by (simp_all add: lit_0_0031308)
  have h3: "lit_0_0031308 < 1 / 2" "(1::real) / 2 \<le> 1"
    "pow_sample (abs (1 / 2)) lit_1_0_div_2_4 \<le> pow_sample (abs 1) lit_1_0_div_2_4"
    by (simp_all add: lit_0_0031308 pow_sample_def)
  have h4: "904735 / 10 ^ 7 \<le> pow_sample (abs lit_0_0031308) lit_1_0_div_2_4"
    "pow_sample (abs lit_0_0031308) lit_1_0_div_2_4 \<le> 904742 / 10 ^ 7"
    by (simp_all add: lit_0_0031308 pow_sample_def)
  have h5: "pow_sample (abs (lit_0_0031308 + 1 / 2 ^ 32)) lit_1_0_div_2_4 \<le> 6071599 / 2 ^ 26"
    by (simp add: lit_0_0031308 pow_sample_def)
  from T h1 have c1: "AccurateLinearToSrgb pow_sample 1 = 1 - 1 / 2 ^ 24"
    by blast
  from T h2 have c2: "AccurateLinearToSrgb pow_sample 0 \<le> AccurateLinearToSrgb pow_sample (1 / 2 ^ 9)"
    by blast
  from T h3 have c3: "AccurateLinearToSrgb pow_sample (1 / 2) \<le> AccurateLinearToSrgb pow_sample 1"
    by blast
  from T h4 have c4: "\<bar>sRgbLo lit_0_0031308 - sRgbHi pow_sample lit_0_0031308\<bar> < 1 / 10 ^ 6"
    by blast
  from T h5 have c5: "AccurateLinearToSrgb pow_sample (lit_0_0031308 + 1 / 2 ^ 32)
        < AccurateLinearToSrgb pow_sample lit_0_0031308"
    by blast
  from h1 h2 h3 h4 h5 c1 c2 c3 c4 c5 show ?thesis
    by (intro conjI)
qed

text \<open>
  The curve over the reals maps \<open>1\<close> to \<open>1\<close>. The function does not, whatever the C
  library is, since every \<open>pow\<close> returns \<open>1\<close> for the base \<open>1\<close>: the product
  \<open>1 * 1.055f\<close> is \<open>1.055f = 8849981 / 2^23\<close>, and
  \<open>1.055f - 0.055f = 1 - 7 / 2^27\<close> is rounded to \<open>1 - 2^-24\<close>.
\<close>

theorem AccurateLinearToSrgb_one_counterexample:
  "AccurateLinearToSrgb pow_rounded 1 = 16777215 / 2 ^ 24
   \<and> AccurateLinearToSrgb pow_rounded 1 \<noteq> 1"
proof -
  have "AccurateLinearToSrgb pow_rounded 1 = 16777215 / 2 ^ 24"
    by (rule AccurateLinearToSrgb_1) (rule pow_rounded_1)
  then show ?thesis
    by simp
qed

subsection \<open>Binary32 numbers are left as they are\<close>

lemma round32_fixed:
  assumes "\<bar>n\<bar> < 2 ^ 24" "- 149 \<le> e"
  shows "round32 (of_int n * 2 powi e) = of_int n * 2 powi e"
proof (cases "n = 0")
  case True
  then show ?thesis
    by (simp add: round32_0)
next
  case False
  define x :: real where "x = of_int n * 2 powi e"
  have ax: "\<bar>x\<bar> = of_int \<bar>n\<bar> * 2 powi e"
    by (simp add: x_def abs_mult)
  have "1 \<le> \<bar>n\<bar>"
    using False by simp
  then have "(1::real) \<le> of_int \<bar>n\<bar>"
    by (simp only: of_int_1_le_iff)
  then have "1 * 2 powi e \<le> of_int \<bar>n\<bar> * (2::real) powi e"
    by (intro mult_right_mono) simp_all
  then have lo: "2 powi e \<le> \<bar>x\<bar>"
    by (simp add: ax)
  moreover have "(0::real) < 2 powi e"
    by simp
  ultimately have pos: "0 < \<bar>x\<bar>"
    by linarith
  have "real_of_int \<bar>n\<bar> < real_of_int (2 ^ 24)"
    using assms(1) by (simp only: of_int_less_iff)
  then have "real_of_int \<bar>n\<bar> < 2 ^ 24"
    by simp
  then have "of_int \<bar>n\<bar> * 2 powi e < (2::real) ^ 24 * 2 powi e"
    by (intro mult_strict_right_mono) simp_all
  also have "\<dots> = 2 powi (24 + e)"
    by (simp add: power_int_add)
  finally have hi: "\<bar>x\<bar> < 2 powi (24 + e)"
    by (simp add: ax)
  have p: "(2::real) powr real_of_int (24 + e) = 2 powi (24 + e)"
    by (rule powr_real_of_int') simp_all
  have "log 2 \<bar>x\<bar> < real_of_int (24 + e)"
    using hi pos by (simp only: log_less_iff [OF _ pos] p)
  then have "\<lfloor>log 2 \<bar>x\<bar>\<rfloor> < 24 + e"
    by (simp only: floor_less_iff)
  then have u: "ulp32_exp x \<le> e"
    using assms(2) by (simp add: ulp32_exp_def)
  define d where "d = nat (e - ulp32_exp x)"
  have d: "int d = e - ulp32_exp x"
    using u by (simp add: d_def)
  have "2 powi e / 2 powi ulp32_exp x = (2::real) powi (e - ulp32_exp x)"
    by (simp add: power_int_diff)
  also have "\<dots> = 2 powi int d"
    by (simp only: d)
  also have "\<dots> = 2 ^ d"
    by (rule power_int_of_nat)
  finally have r: "2 powi e / 2 powi ulp32_exp x = (2::real) ^ d" .
  have "x / 2 powi ulp32_exp x = of_int n * (2 powi e / 2 powi ulp32_exp x)"
    by (simp add: x_def)
  also have "\<dots> = of_int (n * 2 ^ d)"
    by (simp only: r) simp
  finally have q: "x / 2 powi ulp32_exp x = of_int (n * 2 ^ d)" .
  have "x \<noteq> 0"
    using pos by simp
  then have "round32 x = of_int (round_half_even (x / 2 powi ulp32_exp x)) * 2 powi ulp32_exp x"
    by (simp add: round32_def)
  also have "\<dots> = of_int (n * 2 ^ d) * 2 powi ulp32_exp x"
    by (simp only: q round_half_even_of_int)
  also have "\<dots> = x / 2 powi ulp32_exp x * 2 powi ulp32_exp x"
    by (simp only: q)
  also have "\<dots> = x"
    by simp
  finally show ?thesis
    by (simp only: x_def)
qed

lemma round32_numeral:
  assumes "(numeral w :: int) < 2 ^ 24"
  shows "round32 (numeral w) = numeral w"
  using round32_fixed [of "numeral w" 0] assms by simp

lemma round32_fractions:
  "round32 (1 / 2) = 1 / 2" "round32 (1 / 4) = 1 / 4" "round32 (1 / 16) = 1 / 16"
  "round32 (13421773 / 2097152) = 13421773 / 2097152"
  using round32_fixed [of 1 "- 1"] round32_fixed [of 1 "- 2"] round32_fixed [of 1 "- 4"]
    round32_fixed [of 13421773 "- 21"]
  by (simp_all add: power_int_minus field_simps)

section \<open>Traversal kernel: \<open>test_face\<close>, \<open>find_hit_closest\<close>, \<open>find_hit_any\<close>\<close>

text \<open>
  The kernel is GLSL. Its \<open>uint\<close>s are 32-bit words. Its \<open>float\<close>s are the values of a
  type \<open>'f\<close>, and the arithmetic of the device on them is a parameter of every function
  of the model, the record \<open>float_ops\<close>: the four operations, the two comparisons
  \<open><\<close> and \<open><=\<close> (\<open>a > b\<close> is \<open>b < a\<close> and \<open>a >= b\<close> is \<open>b <= a\<close>), \<open>abs\<close>, the
  conversions \<open>float(uint)\<close> and \<open>uint(float)\<close>, \<open>uintBitsToFloat\<close>, and the literals
  \<open>0.0\<close> and \<open>1.0\<close>. Nothing is assumed of them: what is proved for every \<open>float_ops\<close>
  holds for the rounding, the infinities and the NaNs of binary32 as well.
  The buffers bound to the kernel are functions from the 32-bit index to the element.
  The constants that the host injects as \<open>#define\<close>s are the fields of
  \<open>kernel_config\<close>; \<open>AOV_ID\<close> is taken to be none of the two debug ids, so the
  counters \<open>bvh_steps\<close> and \<open>tri_tests\<close> are compiled out.
\<close>

record 'f float_ops =
  fadd :: "'f \<Rightarrow> 'f \<Rightarrow> 'f"
  fsub :: "'f \<Rightarrow> 'f \<Rightarrow> 'f"
  fmul :: "'f \<Rightarrow> 'f \<Rightarrow> 'f"
  fdiv :: "'f \<Rightarrow> 'f \<Rightarrow> 'f"
  flt :: "'f \<Rightarrow> 'f \<Rightarrow> bool"
  fle :: "'f \<Rightarrow> 'f \<Rightarrow> bool"
  fabs :: "'f \<Rightarrow> 'f"
  float_of_uint :: "32 word \<Rightarrow> 'f"
  uint_of_float :: "'f \<Rightarrow> 32 word"
  uintBitsToFloat :: "32 word \<Rightarrow> 'f"
  fzero :: 'f
  fone :: 'f

text \<open>\<open>max\<close> and \<open>min\<close> as GLSL defines them: \<open>y\<close> if \<open>x < y\<close>, and \<open>y\<close> if \<open>y < x\<close>.\<close>

definition fmax :: "'f float_ops \<Rightarrow> 'f \<Rightarrow> 'f \<Rightarrow> 'f" where
  "fmax ops x y = (if flt ops x y then y else x)"

definition fmin :: "'f float_ops \<Rightarrow> 'f \<Rightarrow> 'f \<Rightarrow> 'f" where
  "fmin ops x y = (if flt ops y x then y else x)"

type_synonym 'f vec3 = "'f \<times> 'f \<times> 'f"
type_synonym 'f vec2 = "'f \<times> 'f"
type_synonym uvec2 = "32 word \<times> 32 word"

definition vsub :: "'f float_ops \<Rightarrow> 'f vec3 \<Rightarrow> 'f vec3 \<Rightarrow> 'f vec3" where
  "vsub ops a b = (case a of (ax, ay, az) \<Rightarrow> case b of (bx, by, bz) \<Rightarrow>
     (fsub ops ax bx, fsub ops ay by, fsub ops az bz))"

definition cross :: "'f float_ops \<Rightarrow> 'f vec3 \<Rightarrow> 'f vec3 \<Rightarrow> 'f vec3" where
  "cross ops a b = (case a of (ax, ay, az) \<Rightarrow> case b of (bx, by, bz) \<Rightarrow>
     (fsub ops (fmul ops ay bz) (fmul ops by az),
      fsub ops (fmul ops az bx) (fmul ops bz ax),
      fsub ops (fmul ops ax by) (fmul ops bx ay)))"

definition dot :: "'f float_ops \<Rightarrow> 'f vec3 \<Rightarrow> 'f vec3 \<Rightarrow> 'f" where
  "dot ops a b = (case a of (ax, ay, az) \<Rightarrow> case b of (bx, by, bz) \<Rightarrow>
     fadd ops (fadd ops (fmul ops ax bx) (fmul ops ay by)) (fmul ops az bz))"

record 'f kernel_config =
  TRI_EPS :: 'f
  MAX_STACK_SIZE :: nat
  POSTPONE_RATIO :: 'f
  TRIANGLE_POSTPONING :: bool

record 'f RayInfo =
  origin :: "'f vec3"
  dir :: "'f vec3"
  tmax :: 'f

record 'f Hit_info =
  face_idx :: "32 word"
  bc :: "'f vec2"

record face =
  v_0 :: "32 word"
  v_1 :: "32 word"
  v_2 :: "32 word"
  mat_index :: "32 word"

text \<open>A node as the kernel reads it: five \<open>uvec4\<close> fields \<open>f1\<close> to \<open>f5\<close>.\<close>

record bvh_node =
  f1_x :: "32 word"  f1_y :: "32 word"  f1_z :: "32 word"  f1_w :: "32 word"
  f2_x :: "32 word"  f2_y :: "32 word"  f2_z :: "32 word"  f2_w :: "32 word"
  f3_x :: "32 word"  f3_y :: "32 word"  f3_z :: "32 word"  f3_w :: "32 word"
  f4_x :: "32 word"  f4_y :: "32 word"  f4_z :: "32 word"  f4_w :: "32 word"
  f5_x :: "32 word"  f5_y :: "32 word"  f5_z :: "32 word"  f5_w :: "32 word"

text \<open>The three storage buffers; of a vertex only \<open>field1.xyz\<close>, the position, is read.\<close>

record 'f scene_buffers =
  bvh_nodes :: "32 word \<Rightarrow> bvh_node"
  faces :: "32 word \<Rightarrow> face"
  vertices :: "32 word \<Rightarrow> 'f vec3"

subsection \<open>\<open>test_face\<close>\<close>

text \<open>
  M\"oller-Trumbore. The result is \<open>None\<close> where the source returns \<open>false\<close> and the
  out parameters \<open>t\<close> and \<open>bc\<close> where it returns \<open>true\<close>.
\<close>

definition test_face ::
  "'f float_ops \<Rightarrow> 'f kernel_config \<Rightarrow> 'f RayInfo \<Rightarrow> 'f vec3 \<Rightarrow> 'f vec3 \<Rightarrow> 'f vec3
    \<Rightarrow> ('f \<times> 'f vec2) option" where
  "test_face ops cfg ray p0 p1 p2 =
    (let e1 = vsub ops p1 p0;
         e2 = vsub ops p2 p0;
         p = cross ops (dir ray) e2;
         det = dot ops e1 p
     in if flt ops (fabs ops det) (TRI_EPS cfg) then None
        else
          let inv_det = fdiv ops (fone ops) det;
              tvec = vsub ops (origin ray) p0;
              bc_x = fmul ops (dot ops tvec p) inv_det
          in if flt ops bc_x (fzero ops) \<or> flt ops (fone ops) bc_x then None
             else
               let q = cross ops tvec e1;
                   bc_y = fmul ops (dot ops (dir ray) q) inv_det
               in if flt ops bc_y (fzero ops) \<or> flt ops (fone ops) (fadd ops bc_x bc_y) then None
                  else
                    let t = fmul ops (dot ops e2 q) inv_det
                    in if fle ops t (fzero ops) \<or> fle ops (tmax ray) t then None
                       else Some (t, (bc_x, bc_y)))"

subsection \<open>The built-in functions and the helpers\<close>

text \<open>
  \<open>findMSB\<close>: the index of the most significant set bit, and \<open>-1\<close> (all ones, as a
  \<open>uint\<close>) for 0. \<open>bitCount\<close>: the number of set bits.
\<close>

definition findMSB :: "32 word \<Rightarrow> 32 word" where
  "findMSB a = (case find (bit a) (rev [0..<32]) of None \<Rightarrow> - 1 | Some i \<Rightarrow> word_of_nat i)"

definition bitCount :: "32 word \<Rightarrow> 32 word" where
  "bitCount a = word_of_nat (length (filter (bit a) [0..<32]))"

definition sign_to_byte_mask4 :: "32 word \<Rightarrow> 32 word" where
  "sign_to_byte_mask4 a0 =
    (let a = a0 AND 0x80808080;
         a = a + a - drop_bit 7 a
     in a)"

definition extract_byte :: "32 word \<Rightarrow> nat \<Rightarrow> 32 word" where
  "extract_byte num byte_idx = drop_bit (byte_idx * 8) num AND 0xFF"

subsection \<open>The node test\<close>

text \<open>
  The body of the loop over \<open>child_idx\<close>: the slab test of one child against the ray,
  with the quantised bounds already selected by the signs, and the update of
  \<open>hitmask\<close>. \<open>uint_unpack_vec4\<close> converts the byte of the child to \<open>float\<close>.
\<close>

definition test_child ::
  "'f float_ops \<Rightarrow> 'f \<Rightarrow> 'f vec3 \<Rightarrow> 'f vec3 \<Rightarrow> 32 word \<Rightarrow> 32 word
    \<Rightarrow> 32 word \<Rightarrow> 32 word \<Rightarrow> 32 word \<Rightarrow> 32 word \<Rightarrow> 32 word \<Rightarrow> 32 word
    \<Rightarrow> nat \<Rightarrow> 32 word \<Rightarrow> 32 word" where
  "test_child ops ray_tmax local_inv_dir local_orig child_bits4 bit_index4
      s_q_lo_x s_q_hi_x s_q_lo_y s_q_hi_y s_q_lo_z s_q_hi_z child_idx hitmask =
    (case local_inv_dir of (lx, ly, lz) \<Rightarrow> case local_orig of (ox, oy, oz) \<Rightarrow>
     let t_min_x = fadd ops (fmul ops lx (float_of_uint ops (extract_byte s_q_lo_x child_idx))) ox;
         t_max_x = fadd ops (fmul ops lx (float_of_uint ops (extract_byte s_q_hi_x child_idx))) ox;
         t_min_y = fadd ops (fmul ops ly (float_of_uint ops (extract_byte s_q_lo_y child_idx))) oy;
         t_max_y = fadd ops (fmul ops ly (float_of_uint ops (extract_byte s_q_hi_y child_idx))) oy;
         t_min_z = fadd ops (fmul ops lz (float_of_uint ops (extract_byte s_q_lo_z child_idx))) oz;
         t_max_z = fadd ops (fmul ops lz (float_of_uint ops (extract_byte s_q_hi_z child_idx))) oz;
         bmin = fmax ops (fmax ops t_min_x t_min_y) (fmax ops t_min_z (fzero ops));
         bmax = fmin ops (fmin ops t_max_x t_max_y) (fmin ops t_max_z ray_tmax);
         is_intersected = fle ops bmin bmax
     in if \<not> is_intersected then hitmask
        else
          let child_bits = extract_byte child_bits4 child_idx;
              bit_index = extract_byte bit_index4 child_idx
          in hitmask OR push_bit (unat bit_index) child_bits)"

text \<open>The body of the loop over \<open>passIdx\<close>: four children at a time.\<close>

definition test_pass ::
  "'f float_ops \<Rightarrow> 'f \<Rightarrow> 'f vec3 \<Rightarrow> 'f vec3 \<Rightarrow> 'f vec3 \<Rightarrow> 32 word \<Rightarrow> bvh_node \<Rightarrow> nat
    \<Rightarrow> 32 word \<Rightarrow> 32 word" where
  "test_pass ops ray_tmax inv_dir local_inv_dir local_orig oct_inv4 node passIdx hitmask =
    (let meta4 = (if passIdx = 0 then f2_z node else f2_w node);
         is_inner4 = (meta4 AND push_bit 1 meta4) AND 0x10101010;
         inner_mask4 = sign_to_byte_mask4 (push_bit 3 is_inner4);
         bit_index4 = (meta4 XOR (oct_inv4 AND inner_mask4)) AND 0x1F1F1F1F;
         child_bits4 = drop_bit 5 meta4 AND 0x07070707;
         x_lt_0 = flt ops (fst inv_dir) (fzero ops);
         y_lt_0 = flt ops (fst (snd inv_dir)) (fzero ops);
         z_lt_0 = flt ops (snd (snd inv_dir)) (fzero ops);
         q_lo_x = (if passIdx = 0 then f3_x node else f3_y node);
         q_hi_x = (if passIdx = 0 then f4_z node else f4_w node);
         q_lo_y = (if passIdx = 0 then f3_z node else f3_w node);
         q_hi_y = (if passIdx = 0 then f5_x node else f5_y node);
         q_lo_z = (if passIdx = 0 then f4_x node else f4_y node);
         q_hi_z = (if passIdx = 0 then f5_z node else f5_w node);
         s_q_lo_x = (if x_lt_0 then q_hi_x else q_lo_x);
         s_q_hi_x = (if x_lt_0 then q_lo_x else q_hi_x);
         s_q_lo_y = (if y_lt_0 then q_hi_y else q_lo_y);
         s_q_hi_y = (if y_lt_0 then q_lo_y else q_hi_y);
         s_q_lo_z = (if z_lt_0 then q_hi_z else q_lo_z);
         s_q_hi_z = (if z_lt_0 then q_lo_z else q_hi_z)
     in fold (test_child ops ray_tmax local_inv_dir local_orig child_bits4 bit_index4
                s_q_lo_x s_q_hi_x s_q_lo_y s_q_hi_y s_q_lo_z s_q_hi_z) [0..<4] hitmask)"

text \<open>
  \<open>oct_inv4\<close>, computed once per query from the signs of the ray direction, and the
  component-wise \<open>1.0 / ray.dir\<close>.
\<close>

definition oct_inv4_of :: "'f float_ops \<Rightarrow> 'f RayInfo \<Rightarrow> 32 word" where
  "oct_inv4_of ops ray =
    (case dir ray of (dx, dy, dz) \<Rightarrow>
       ((if fle ops (fzero ops) dx then 4 else 0) OR (if fle ops (fzero ops) dy then 2 else 0)
          OR (if fle ops (fzero ops) dz then 1 else 0))
         * 0x01010101)"

definition inv_dir_of :: "'f float_ops \<Rightarrow> 'f RayInfo \<Rightarrow> 'f vec3" where
  "inv_dir_of ops ray =
    (case dir ray of (dx, dy, dz) \<Rightarrow>
       (fdiv ops (fone ops) dx, fdiv ops (fone ops) dy, fdiv ops (fone ops) dz))"

text \<open>
  The part of an iteration from reading the node to the two assignments of
  \<open>node_group\<close> and \<open>face_group\<close>: the result is the pair of the two groups.
\<close>

definition enter_node :: "'f float_ops \<Rightarrow> 'f RayInfo \<Rightarrow> bvh_node \<Rightarrow> uvec2 \<times> uvec2" where
  "enter_node ops ray node =
    (let inv_dir = inv_dir_of ops ray;
         oct_inv4 = oct_inv4_of ops ray;
         e_x = extract_byte (f1_w node) 0;
         e_y = extract_byte (f1_w node) 1;
         e_z = extract_byte (f1_w node) 2;
         local_inv_dir =
           (fmul ops (uintBitsToFloat ops (push_bit 23 e_x)) (fst inv_dir),
            fmul ops (uintBitsToFloat ops (push_bit 23 e_y)) (fst (snd inv_dir)),
            fmul ops (uintBitsToFloat ops (push_bit 23 e_z)) (snd (snd inv_dir)));
         p = (uintBitsToFloat ops (f1_x node), uintBitsToFloat ops (f1_y node),
              uintBitsToFloat ops (f1_z node));
         d = vsub ops p (origin ray);
         local_orig = (fmul ops (fst d) (fst inv_dir), fmul ops (fst (snd d)) (fst (snd inv_dir)),
                       fmul ops (snd (snd d)) (snd (snd inv_dir)));
         hitmask = fold (test_pass ops (tmax ray) inv_dir local_inv_dir local_orig oct_inv4 node)
                     [0..<2] 0;
         node_imask = extract_byte (f1_w node) 3
     in ((f2_x node, (hitmask AND 0xFF000000) OR node_imask),
         (f2_y node, hitmask AND 0x00FFFFFF)))"

text \<open>
  Taking the next child out of a node group: the index of the child node, and the node
  group with the bit of that child cleared.
\<close>

definition pop_child :: "32 word \<Rightarrow> uvec2 \<Rightarrow> 32 word \<times> uvec2" where
  "pop_child oct_inv4 node_group =
    (let child_bit_idx = findMSB (snd node_group);
         slot_index = (child_bit_idx - 24) XOR (oct_inv4 AND 0xFF);
         rel_idx = bitCount (snd node_group AND NOT (push_bit (unat slot_index) 0xFFFFFFFF));
         child_node_idx = fst node_group + rel_idx
     in (child_node_idx, (fst node_group, snd node_group AND NOT (push_bit (unat child_bit_idx) 1))))"

subsection \<open>The state of a query\<close>

text \<open>
  The local variables that live across the iterations of \<open>while (true)\<close>: the ray
  (\<open>inout\<close> in \<open>find_hit_closest\<close>, which shrinks \<open>tmax\<close>), the hit, the node group and
  the stack with \<open>stack_size\<close> as its length. \<open>st_ballots\<close> counts the calls of
  \<open>subgroupBallotBitCount(subgroupBallot(true))\<close> made so far: the \<open>k\<close>-th call
  returns \<open>ballot k\<close>, for a sequence \<open>ballot\<close> that is an input of the model.
  \<open>st_tested\<close> is no variable of the source: it lists the faces handed to
  \<open>test_face\<close> so far, in order, each with what \<open>test_face\<close> returned (the source
  only counts them, in \<open>hit.tri_tests\<close>, under the debug AOV), and nothing that the
  kernel computes depends on it.
\<close>

record 'f trav_state =
  st_ray :: "'f RayInfo"
  st_hit :: "'f Hit_info"
  st_node_group :: uvec2
  st_stack :: "uvec2 list"
  st_ballots :: nat
  st_tested :: "(32 word \<times> ('f \<times> 'f vec2) option) list"

text \<open>
  How a query can stop other than by returning: \<open>AssertFailed\<close> is the fatal error
  of \<open>ASSERT\<close>; \<open>StackOverrun\<close> marks a store to \<open>stack[stack_size]\<close> with
  \<open>stack_size >= MAX_STACK_SIZE\<close>, past the end of the array.
\<close>

datatype fault = AssertFailed | StackOverrun

datatype 'f step = Next "'f trav_state" | Return bool "'f trav_state" | Fault fault

text \<open>\<open>uint(active_inv_count1 * POSTPONE_RATIO)\<close>, the \<open>uint\<close> converted to \<open>float\<close> for the product.\<close>

definition postpone_threshold :: "'f float_ops \<Rightarrow> 'f kernel_config \<Rightarrow> 32 word \<Rightarrow> 32 word" where
  "postpone_threshold ops cfg active_inv_count1 =
    uint_of_float ops (fmul ops (float_of_uint ops active_inv_count1) (POSTPONE_RATIO cfg))"

definition face_position :: "'f scene_buffers \<Rightarrow> 32 word \<Rightarrow> 'f vec3 \<times> 'f vec3 \<times> 'f vec3" where
  "face_position sc face_index =
    (let f = faces sc face_index
     in (vertices sc (v_0 f), vertices sc (v_1 f), vertices sc (v_2 f)))"

text \<open>Fetching the three positions of a face and testing it.\<close>

definition face_test ::
  "'f float_ops \<Rightarrow> 'f kernel_config \<Rightarrow> 'f scene_buffers \<Rightarrow> 'f RayInfo \<Rightarrow> 32 word
    \<Rightarrow> ('f \<times> 'f vec2) option" where
  "face_test ops cfg sc ray face_index =
    (case face_position sc face_index of (p0, p1, p2) \<Rightarrow> test_face ops cfg ray p0 p1 p2)"

definition clear_msb :: "32 word \<Rightarrow> 32 word" where
  "clear_msb y = y AND NOT (push_bit (unat (findMSB y)) 1)"

subsection \<open>Clearing the most significant bit\<close>

lemma findMSB_bit:
  assumes "a \<noteq> 0"
  shows "unat (findMSB a) < 32" and "bit a (unat (findMSB a))"
    and "\<And>j. unat (findMSB a) < j \<Longrightarrow> \<not> bit a j"
proof -
  from assms obtain k where k: "bit a k"
    by (auto simp: bit_eq_iff)
  then have "k < 32"
    by (auto dest: bit_imp_le_length)
  with k have "\<exists>i \<in> set (rev [0..<32]). bit a i"
    by auto
  then obtain i where f: "find (bit a) (rev [0..<32]) = Some i"
    by (cases "find (bit a) (rev [0..<32])") (auto simp: find_None_iff)
  then obtain n where n: "n < length (rev [0..<32 :: nat])" "bit a (rev [0..<32] ! n)"
    "i = rev [0..<32] ! n" "\<forall>m<n. \<not> bit a (rev [0..<32] ! m)"
    unfolding find_Some_iff by blast
  from n(1) have i: "i = 31 - n" "n < 32"
    using n(3) by (simp_all add: rev_nth)
  then have i32: "i < 32"
    by simp
  have u: "unat (findMSB a) = i"
    using i32 by (simp add: findMSB_def f unat_of_nat)
  show "unat (findMSB a) < 32"
    using u i32 by simp
  show "bit a (unat (findMSB a))"
    using u n(2,3) by simp
  show "\<not> bit a j" if "unat (findMSB a) < j" for j
  proof (cases "j < 32")
    case True
    with that u i have "31 - j < n"
      by simp
    with n(4) have "\<not> bit a (rev [0..<32] ! (31 - j))"
      by blast
    with True show ?thesis
      by (simp add: rev_nth)
  next
    case False
    then show ?thesis
      by (auto dest: bit_imp_le_length)
  qed
qed

lemma bit_clear_msb:
  "a \<noteq> 0 \<Longrightarrow> bit (clear_msb a) j \<longleftrightarrow> bit a j \<and> j \<noteq> unat (findMSB a)"
  by (auto simp: clear_msb_def bit_simps dest: bit_imp_le_length)

lemma clear_msb_less:
  assumes "a \<noteq> 0"
  shows "unat (clear_msb a) < unat a"
proof -
  have "clear_msb a \<le> a"
    unfolding clear_msb_def by (rule word_and_le2)
  moreover have "clear_msb a \<noteq> a"
    using findMSB_bit(2) [OF assms] bit_clear_msb [OF assms, of "unat (findMSB a)"]
    by auto
  ultimately have "clear_msb a < a"
    by simp
  then show ?thesis
    by (simp add: word_less_nat_alt)
qed

subsection \<open>The face loops\<close>

text \<open>
  The loop \<open>while (face_group.y != 0)\<close> of \<open>find_hit_closest\<close>. With
  \<open>TRIANGLE_POSTPONING\<close> defined every round first samples the active lanes and, when
  there are fewer than the threshold, pushes the face group behind an \<open>ASSERT\<close> and
  leaves the loop. Otherwise the face of the most significant bit is taken out of the
  group and tested, and a hit overwrites \<open>ray.tmax\<close> and the hit. The result is the
  face group and the state when the loop is left.
\<close>

function face_loop_closest ::
  "'f float_ops \<Rightarrow> 'f kernel_config \<Rightarrow> 'f scene_buffers \<Rightarrow> (nat \<Rightarrow> 32 word) \<Rightarrow> 32 word \<Rightarrow> uvec2
    \<Rightarrow> 'f trav_state \<Rightarrow> fault + uvec2 \<times> 'f trav_state" where
  "face_loop_closest ops cfg sc ballot active_inv_count1 face_group st =
    (if snd face_group = 0 then Inr (face_group, st)
     else if TRIANGLE_POSTPONING cfg
             \<and> ballot (st_ballots st) < postpone_threshold ops cfg active_inv_count1
     then (if length (st_stack st) < MAX_STACK_SIZE cfg
           then Inr (face_group, st\<lparr>st_stack := st_stack st @ [face_group],
                                     st_ballots := Suc (st_ballots st)\<rparr>)
           else Inl AssertFailed)
     else
       let st = (if TRIANGLE_POSTPONING cfg then st\<lparr>st_ballots := Suc (st_ballots st)\<rparr> else st);
           face_rel_index = findMSB (snd face_group);
           face_index = fst face_group + face_rel_index;
           has_hit = face_test ops cfg sc (st_ray st) face_index;
           st = st\<lparr>st_tested := st_tested st @ [(face_index, has_hit)]\<rparr>
       in (case has_hit of
             Some (temp_t, temp_bc) \<Rightarrow>
               face_loop_closest ops cfg sc ballot active_inv_count1
                 (fst face_group, clear_msb (snd face_group))
                 (st\<lparr>st_ray := (st_ray st)\<lparr>tmax := temp_t\<rparr>,
                     st_hit := (st_hit st)\<lparr>bc := temp_bc, face_idx := face_index\<rparr>\<rparr>)
           | None \<Rightarrow>
               face_loop_closest ops cfg sc ballot active_inv_count1
                 (fst face_group, clear_msb (snd face_group)) st))"
  by pat_completeness auto
termination
  by (relation "measure (\<lambda>(ops, cfg, sc, ballot, c, face_group, st). unat (snd face_group))")
    (auto simp: clear_msb_less)

declare face_loop_closest.simps [simp del]

text \<open>
  The same loop in \<open>find_hit_any\<close>. Here the source has no \<open>#ifdef\<close> around the
  postponement and no \<open>ASSERT\<close> in front of the push; a hit returns \<open>true\<close> at once.
  The result is \<open>Return True\<close> for that, and otherwise the face group and the state
  when the loop is left.
\<close>

function face_loop_any ::
  "'f float_ops \<Rightarrow> 'f kernel_config \<Rightarrow> 'f scene_buffers \<Rightarrow> (nat \<Rightarrow> 32 word) \<Rightarrow> 32 word \<Rightarrow> uvec2
    \<Rightarrow> 'f trav_state \<Rightarrow> 'f step + uvec2 \<times> 'f trav_state" where
  "face_loop_any ops cfg sc ballot active_inv_count1 face_group st =
    (if snd face_group = 0 then Inr (face_group, st)
     else if ballot (st_ballots st) < postpone_threshold ops cfg active_inv_count1
     then (if length (st_stack st) < MAX_STACK_SIZE cfg
           then Inr (face_group, st\<lparr>st_stack := st_stack st @ [face_group],
                                     st_ballots := Suc (st_ballots st)\<rparr>)
           else Inl (Fault StackOverrun))
     else
       let st = st\<lparr>st_ballots := Suc (st_ballots st)\<rparr>;
           face_rel_index = findMSB (snd face_group);
           face_index = fst face_group + face_rel_index;
           has_hit = face_test ops cfg sc (st_ray st) face_index;
           st = st\<lparr>st_tested := st_tested st @ [(face_index, has_hit)]\<rparr>
       in (case has_hit of
             Some (temp_t, temp_bc) \<Rightarrow> Inl (Return True st)
           | None \<Rightarrow>
               face_loop_any ops cfg sc ballot active_inv_count1
                 (fst face_group, clear_msb (snd face_group)) st))"
  by pat_completeness auto
termination
  by (relation "measure (\<lambda>(ops, cfg, sc, ballot, c, face_group, st). unat (snd face_group))")
    (auto simp: clear_msb_less)

declare face_loop_any.simps [simp del]

subsection \<open>One iteration of \<open>while (true)\<close>\<close>

text \<open>
  The first half of an iteration in \<open>find_hit_closest\<close>: either the node group is a
  face group that came off the stack, or the next child node is taken out of it, the
  rest of the node group is pushed behind an \<open>ASSERT\<close> if children remain, and the
  node is entered. The result is the node group, the face group and the stack.
\<close>

definition descend_closest ::
  "'f float_ops \<Rightarrow> 'f kernel_config \<Rightarrow> 'f scene_buffers \<Rightarrow> 'f trav_state
    \<Rightarrow> fault + uvec2 \<times> uvec2 \<times> uvec2 list" where
  "descend_closest ops cfg sc st =
    (let node_group = st_node_group st in
     if snd node_group \<le> 0x00FFFFFF then Inr ((0, 0), node_group, st_stack st)
     else
       case pop_child (oct_inv4_of ops (st_ray st)) node_group of (child_node_idx, node_group) \<Rightarrow>
       if snd node_group > 0x00FFFFFF \<and> \<not> length (st_stack st) < MAX_STACK_SIZE cfg
       then Inl AssertFailed
       else
         let stack = (if snd node_group > 0x00FFFFFF then st_stack st @ [node_group]
                      else st_stack st)
         in case enter_node ops (st_ray st) (bvh_nodes sc child_node_idx) of
              (node_group', face_group) \<Rightarrow> Inr (node_group', face_group, stack))"

text \<open>The same in \<open>find_hit_any\<close>, where the push has no \<open>ASSERT\<close>.\<close>

definition descend_any ::
  "'f float_ops \<Rightarrow> 'f kernel_config \<Rightarrow> 'f scene_buffers \<Rightarrow> 'f trav_state
    \<Rightarrow> fault + uvec2 \<times> uvec2 \<times> uvec2 list" where
  "descend_any ops cfg sc st =
    (let node_group = st_node_group st in
     if snd node_group \<le> 0x00FFFFFF then Inr ((0, 0), node_group, st_stack st)
     else
       case pop_child (oct_inv4_of ops (st_ray st)) node_group of (child_node_idx, node_group) \<Rightarrow>
       if snd node_group > 0x00FFFFFF \<and> \<not> length (st_stack st) < MAX_STACK_SIZE cfg
       then Inl StackOverrun
       else
         let stack = (if snd node_group > 0x00FFFFFF then st_stack st @ [node_group]
                      else st_stack st)
         in case enter_node ops (st_ray st) (bvh_nodes sc child_node_idx) of
              (node_group', face_group) \<Rightarrow> Inr (node_group', face_group, stack))"

text \<open>
  The end of an iteration: go on with the node group if it has children left, else
  with what is popped off the stack, else return.
\<close>

definition advance :: "uvec2 \<Rightarrow> 'f trav_state \<Rightarrow> bool \<Rightarrow> 'f step" where
  "advance node_group st result =
    (if snd node_group > 0x00FFFFFF then Next (st\<lparr>st_node_group := node_group\<rparr>)
     else if length (st_stack st) > 0
     then Next (st\<lparr>st_node_group := last (st_stack st), st_stack := butlast (st_stack st)\<rparr>)
     else Return result (st\<lparr>st_node_group := node_group\<rparr>))"

definition closest_iteration ::
  "'f float_ops \<Rightarrow> 'f kernel_config \<Rightarrow> 'f scene_buffers \<Rightarrow> (nat \<Rightarrow> 32 word) \<Rightarrow> 'f trav_state
    \<Rightarrow> 'f step" where
  "closest_iteration ops cfg sc ballot st =
    (case descend_closest ops cfg sc st of
       Inl f \<Rightarrow> Fault f
     | Inr (node_group, face_group, stack) \<Rightarrow>
        let st = st\<lparr>st_stack := stack\<rparr>;
            active_inv_count1 = (if TRIANGLE_POSTPONING cfg then ballot (st_ballots st) else 0);
            st = (if TRIANGLE_POSTPONING cfg then st\<lparr>st_ballots := Suc (st_ballots st)\<rparr> else st)
        in (case face_loop_closest ops cfg sc ballot active_inv_count1 face_group st of
              Inl f \<Rightarrow> Fault f
            | Inr (face_group', st') \<Rightarrow>
                advance node_group st' (face_idx (st_hit st') \<noteq> 0xFFFFFFFF)))"

definition any_iteration ::
  "'f float_ops \<Rightarrow> 'f kernel_config \<Rightarrow> 'f scene_buffers \<Rightarrow> (nat \<Rightarrow> 32 word) \<Rightarrow> 'f trav_state
    \<Rightarrow> 'f step" where
  "any_iteration ops cfg sc ballot st =
    (case descend_any ops cfg sc st of
       Inl f \<Rightarrow> Fault f
     | Inr (node_group, face_group, stack) \<Rightarrow>
        let st = st\<lparr>st_stack := stack\<rparr>;
            active_inv_count1 = ballot (st_ballots st);
            st = st\<lparr>st_ballots := Suc (st_ballots st)\<rparr>
        in (case face_loop_any ops cfg sc ballot active_inv_count1 face_group st of
              Inl r \<Rightarrow> r
            | Inr (face_group', st') \<Rightarrow> advance node_group st' False))"

subsection \<open>The two queries\<close>

text \<open>
  \<open>while (true)\<close> need not end (nothing forces the nodes to form a tree), so the
  loop runs on fuel: \<open>None\<close> is a query still running after that many iterations.
\<close>

fun iterate :: "('f trav_state \<Rightarrow> 'f step) \<Rightarrow> nat \<Rightarrow> 'f trav_state \<Rightarrow> 'f step option" where
  "iterate body 0 st = None"
| "iterate body (Suc n) st =
    (case body st of Next st' \<Rightarrow> iterate body n st' | r \<Rightarrow> Some r)"

definition initial_state :: "'f RayInfo \<Rightarrow> 'f Hit_info \<Rightarrow> 'f trav_state" where
  "initial_state ray hit =
    \<lparr>st_ray = ray, st_hit = hit, st_node_group = (0, 0x80000000), st_stack = [], st_ballots = 0,
     st_tested = []\<rparr>"

definition find_hit_closest ::
  "'f float_ops \<Rightarrow> 'f kernel_config \<Rightarrow> 'f scene_buffers \<Rightarrow> (nat \<Rightarrow> 32 word) \<Rightarrow> nat \<Rightarrow> 'f RayInfo
    \<Rightarrow> 'f Hit_info \<Rightarrow> 'f step option" where
  "find_hit_closest ops cfg sc ballot fuel ray hit =
    iterate (closest_iteration ops cfg sc ballot) fuel
      (initial_state ray (hit\<lparr>face_idx := 0xFFFFFFFF\<rparr>))"

text \<open>\<open>find_hit_any\<close> has no hit; the field of the state is filled with the sentinel.\<close>

definition find_hit_any ::
  "'f float_ops \<Rightarrow> 'f kernel_config \<Rightarrow> 'f scene_buffers \<Rightarrow> (nat \<Rightarrow> 32 word) \<Rightarrow> nat \<Rightarrow> 'f RayInfo
    \<Rightarrow> 'f step option" where
  "find_hit_any ops cfg sc ballot fuel ray =
    iterate (any_iteration ops cfg sc ballot) fuel
      (initial_state ray \<lparr>face_idx = 0xFFFFFFFF, bc = (fzero ops, fzero ops)\<rparr>)"

subsection \<open>The arithmetic of binary32, and a scene of three nodes\<close>

text \<open>
  The arithmetic of binary32 on its finite numbers, as a \<open>float_ops\<close>: a number is the
  real it denotes, and the result of an operation is the exact result rounded by
  \<open>round32\<close>. The infinities and NaN are not among these values, so a result that
  overflows and a division by zero are not what the device computes; neither occurs in
  the runs below. \<open>uint(x)\<close> truncates, and \<open>uintBitsToFloat\<close> is the value of the
  float with the given bits (sign, eight exponent bits, 23 fraction bits), for an
  exponent field other than 255.
\<close>

definition float_of_bits :: "32 word \<Rightarrow> real" where
  "float_of_bits u =
    (let s = (if bit u 31 then - 1 else 1);
         e = unat (drop_bit 23 u AND 0xFF);
         m = unat (u AND 0x7FFFFF)
     in if e = 0 then s * real m * 2 powi (- 149)
        else s * real (2 ^ 23 + m) * 2 powi (int e - 150))"

definition binary32_ops :: "real float_ops" where
  "binary32_ops =
    \<lparr>fadd = (\<lambda>a b. round32 (a + b)), fsub = (\<lambda>a b. round32 (a - b)),
     fmul = (\<lambda>a b. round32 (a * b)), fdiv = (\<lambda>a b. round32 (a / b)),
     flt = (<), fle = (\<le>), fabs = abs,
     float_of_uint = (\<lambda>u. round32 (real (unat u))), uint_of_float = (\<lambda>x. of_int \<lfloor>x\<rfloor>),
     uintBitsToFloat = float_of_bits, fzero = 0, fone = 1\<rparr>"

text \<open>
  The scene: node 0 is the root with two inner children, nodes 1 and 2, and one leaf
  child that holds face 0; node 1 holds face 1 and node 2 holds face 2. Faces 0 and 1
  are the same triangle, with corners \<open>(1, 1, 2)\<close>, \<open>(5, 1, 2)\<close>, \<open>(1, 5, 2)\<close>; face 2
  has the corners \<open>(5, 5, 6)\<close>, \<open>(9, 5, 6)\<close>, \<open>(5, 9, 6)\<close>. The quantisation frame of every
  node has the origin \<open>0\<close> and the scale \<open>1\<close> (exponent byte \<open>0x7F\<close>), so that the
  bytes of the boxes are coordinates. The ray starts in the origin with direction
  \<open>(1, 1, 1)\<close>: it meets faces 0 and 1 at \<open>t = 2\<close> and face 2 at \<open>t = 6\<close>. Every number
  that the kernel computes on this input is a small integer, \<open>1/16\<close>, \<open>1/4\<close>, or 32
  times the ratio \<open>0.2f\<close>: all of them are binary32 numbers.
\<close>

definition empty_node :: bvh_node where
  "empty_node = \<lparr>f1_x = 0, f1_y = 0, f1_z = 0, f1_w = 0x007F7F7F,
     f2_x = 0, f2_y = 0, f2_z = 0, f2_w = 0,
     f3_x = 0, f3_y = 0, f3_z = 0, f3_w = 0,
     f4_x = 0, f4_y = 0, f4_z = 0, f4_w = 0,
     f5_x = 0, f5_y = 0, f5_z = 0, f5_w = 0\<rparr>"

definition example_nodes :: "bvh_node list" where
  "example_nodes =
    [empty_node\<lparr>f1_w := 0x037F7F7F, f2_x := 1, f2_y := 0, f2_z := 0x00203938,
       f3_x := 0x00010501, f3_z := 0x00010501, f4_x := 0x00020602,
       f4_z := 0x00050905, f5_x := 0x00050905, f5_z := 0x00020602\<rparr>,
     empty_node\<lparr>f2_y := 1, f2_z := 0x20,
       f3_x := 1, f3_z := 1, f4_x := 2, f4_z := 5, f5_x := 5, f5_z := 2\<rparr>,
     empty_node\<lparr>f2_y := 2, f2_z := 0x20,
       f3_x := 5, f3_z := 5, f4_x := 6, f4_z := 9, f5_x := 9, f5_z := 6\<rparr>]"

definition example_faces :: "face list" where
  "example_faces =
    [\<lparr>v_0 = 0, v_1 = 1, v_2 = 2, mat_index = 0\<rparr>,
     \<lparr>v_0 = 0, v_1 = 1, v_2 = 2, mat_index = 0\<rparr>,
     \<lparr>v_0 = 3, v_1 = 4, v_2 = 5, mat_index = 0\<rparr>]"

definition example_vertices :: "real vec3 list" where
  "example_vertices = [(1, 1, 2), (5, 1, 2), (1, 5, 2), (5, 5, 6), (9, 5, 6), (5, 9, 6)]"

definition buffer_of :: "'a list \<Rightarrow> 32 word \<Rightarrow> 'a" where
  "buffer_of xs i = xs ! unat i"

definition example_scene :: "real scene_buffers" where
  "example_scene = \<lparr>bvh_nodes = buffer_of example_nodes, faces = buffer_of example_faces,
     vertices = buffer_of example_vertices\<rparr>"

definition example_ray :: "real RayInfo" where
  "example_ray = \<lparr>origin = (0, 0, 0), dir = (1, 1, 1), tmax = 100\<rparr>"

text \<open>\<open>POSTPONE_RATIO\<close> is \<open>0.2f\<close>, the binary32 number next to \<open>0.2\<close>.\<close>

definition example_config :: "nat \<Rightarrow> bool \<Rightarrow> real kernel_config" where
  "example_config n p = \<lparr>TRI_EPS = 1 / 2 ^ 20, MAX_STACK_SIZE = n,
     POSTPONE_RATIO = 13421773 / 2 ^ 26, TRIANGLE_POSTPONING = p\<rparr>"


definition one_low_ballot :: "nat \<Rightarrow> 32 word" where
  "one_low_ballot k = (if k = 1 then 1 else 32)"


lemma binary32_ops_simps:
  "fadd binary32_ops a b = round32 (a + b)" "fsub binary32_ops a b = round32 (a - b)"
  "fmul binary32_ops a b = round32 (a * b)" "fdiv binary32_ops a b = round32 (a / b)"
  "flt binary32_ops = (<)" "fle binary32_ops = (\<le>)" "fabs binary32_ops = abs"
  "float_of_uint binary32_ops u = round32 (real (unat u))"
  "uint_of_float binary32_ops x = of_int \<lfloor>x\<rfloor>"
  "uintBitsToFloat binary32_ops = float_of_bits" "fzero binary32_ops = 0" "fone binary32_ops = 1"
  by (simp_all add: binary32_ops_def)

lemmas round32_simps = round32_0 round32_1 round32_numeral round32_minus round32_fractions

lemma findMSB_vals:
  "findMSB 0x80000000 = 31" "findMSB 0xC0000003 = 31" "findMSB 0x40000003 = 30" "findMSB 1 = 0"
  by (simp_all add: findMSB_def upt_rec)

lemma bitCount_vals:
  "bitCount 0 = 0" "bitCount 1 = 1"
  by (simp_all add: bitCount_def upt_rec)

lemma float_of_bits_vals:
  "float_of_bits 0 = 0" "float_of_bits 0x3F800000 = 1"
  by (simp_all add: float_of_bits_def)

definition slab :: "real \<Rightarrow> 32 word \<Rightarrow> nat \<Rightarrow> real \<Rightarrow> real" where
  "slab l q i orig = round32 (round32 (l * round32 (real (unat (extract_byte q i)))) + orig)"

lemma test_child_binary32:
  "test_child binary32_ops tm (lx, ly, lz) (ox, oy, oz) cb bi qlx qhx qly qhy qlz qhz i h =
    (if max (max (slab lx qlx i ox) (slab ly qly i oy)) (max (slab lz qlz i oz) 0)
        \<le> min (min (slab lx qhx i ox) (slab ly qhy i oy)) (min (slab lz qhz i oz) tm)
     then h OR push_bit (unat (extract_byte bi i)) (extract_byte cb i) else h)"
  unfolding test_child_def Let_def fmax_def fmin_def binary32_ops_simps slab_def
  by (simp add: max_def min_def)

lemma upt_vals: "[0..<4] = [0, 1, 2, 3]" "[0..<2] = [0, 1]"
  by (simp_all add: upt_rec)

lemma enter_root:
  "enter_node binary32_ops (example_ray\<lparr>tmax := 100\<rparr>) (bvh_nodes example_scene 0) = ((1, 0xC0000003), (0, 1))"
  unfolding enter_node_def test_pass_def inv_dir_of_def oct_inv4_of_def Let_def upt_vals binary32_ops_simps
  by (simp add: example_scene_def buffer_of_def example_nodes_def example_ray_def empty_node_def test_child_binary32 slab_def round32_simps extract_byte_def
      sign_to_byte_mask4_def vsub_def float_of_bits_vals binary32_ops_simps)

lemma enter_node_1:
  "enter_node binary32_ops (example_ray\<lparr>tmax := 100\<rparr>) (bvh_nodes example_scene 1) = ((0, 0), (1, 1))"
  "enter_node binary32_ops (example_ray\<lparr>tmax := 2\<rparr>) (bvh_nodes example_scene 1) = ((0, 0), (1, 1))"
  unfolding enter_node_def test_pass_def inv_dir_of_def oct_inv4_of_def Let_def upt_vals binary32_ops_simps
  by (simp_all add: example_scene_def buffer_of_def example_nodes_def example_ray_def empty_node_def test_child_binary32 slab_def round32_simps extract_byte_def
      sign_to_byte_mask4_def vsub_def float_of_bits_vals binary32_ops_simps)

lemma enter_node_2:
  "enter_node binary32_ops (example_ray\<lparr>tmax := 2\<rparr>) (bvh_nodes example_scene 2) = ((0, 0), (2, 0))"
  unfolding enter_node_def test_pass_def inv_dir_of_def oct_inv4_of_def Let_def upt_vals binary32_ops_simps
  by (simp_all add: example_scene_def buffer_of_def example_nodes_def example_ray_def empty_node_def test_child_binary32 slab_def round32_simps extract_byte_def
      sign_to_byte_mask4_def vsub_def float_of_bits_vals binary32_ops_simps)

lemma oct_inv4_example: "oct_inv4_of binary32_ops (example_ray\<lparr>tmax := t\<rparr>) = 0x07070707"
  by (simp_all add: oct_inv4_of_def example_ray_def binary32_ops_simps)

lemma pop_child_vals:
  "pop_child 0x07070707 (0, 0x80000000) = (0, (0, 0))"
  "pop_child 0x07070707 (1, 0xC0000003) = (1, (1, 0x40000003))"
  "pop_child 0x07070707 (1, 0x40000003) = (2, (1, 3))"
  unfolding pop_child_def Let_def
  by (simp_all add: findMSB_vals bitCount_vals)

lemma face_position_example:
  "face_position example_scene 0 = ((1, 1, 2), (5, 1, 2), (1, 5, 2))"
  "face_position example_scene 1 = ((1, 1, 2), (5, 1, 2), (1, 5, 2))"
  "face_position example_scene 2 = ((5, 5, 6), (9, 5, 6), (5, 9, 6))"
  by (simp_all add: face_position_def example_scene_def buffer_of_def example_faces_def
      example_vertices_def)

lemma test_face_example:
  "test_face binary32_ops (example_config n p) (example_ray\<lparr>tmax := t\<rparr>) (1, 1, 2) (5, 1, 2) (1, 5, 2)
    = (if 2 < t then Some (2, (1 / 4, 1 / 4)) else None)"
  unfolding test_face_def Let_def binary32_ops_simps
  by (simp add: example_config_def example_ray_def vsub_def cross_def dot_def binary32_ops_simps
      round32_simps)

lemma face_test_example:
  "face_test binary32_ops (example_config n p) example_scene (example_ray\<lparr>tmax := t\<rparr>) 0
    = (if 2 < t then Some (2, (1 / 4, 1 / 4)) else None)"
  "face_test binary32_ops (example_config n p) example_scene (example_ray\<lparr>tmax := t\<rparr>) 1
    = (if 2 < t then Some (2, (1 / 4, 1 / 4)) else None)"
  by (simp_all add: face_test_def face_position_example test_face_example)

lemma postpone_threshold_example:
  "postpone_threshold binary32_ops (example_config n p) 32 = 6"
  by (simp add: postpone_threshold_def example_config_def binary32_ops_simps round32_simps)

lemma clear_msb_1: "clear_msb 1 = 0"
  by (simp add: clear_msb_def findMSB_vals)

lemma example_ray_tmax: "example_ray\<lparr>tmax := 100\<rparr> = example_ray"
  by (simp add: example_ray_def)

lemmas enter_root' = enter_root [unfolded example_ray_tmax]
lemmas enter_node_1' = enter_node_1(1) [unfolded example_ray_tmax]
lemmas oct_inv4_example' = oct_inv4_example [of 100, unfolded example_ray_tmax]
lemmas face_test_example' = face_test_example [of _ _ 100, unfolded example_ray_tmax]

lemma example_config_sel:
  "MAX_STACK_SIZE (example_config n p) = n" "TRIANGLE_POSTPONING (example_config n p) = p"
  by (simp_all add: example_config_def)

lemma one_low_ballot_vals:
  "one_low_ballot 0 = 32" "one_low_ballot (Suc 0) = 1" "one_low_ballot (Suc (Suc k)) = 32"
  by (simp_all add: one_low_ballot_def)

lemmas example_simps = example_config_sel one_low_ballot_vals enter_root enter_root' enter_node_1 enter_node_1' enter_node_2
  oct_inv4_example oct_inv4_example' pop_child_vals face_test_example face_test_example'
  postpone_threshold_example clear_msb_1 findMSB_vals

lemma any_step_1:
  "any_iteration binary32_ops (example_config (Suc 0) p) example_scene one_low_ballot
      (initial_state example_ray h)
    = Next \<lparr>st_ray = example_ray, st_hit = h, st_node_group = (1, 0xC0000003),
        st_stack = [(0, 1)], st_ballots = Suc (Suc 0), st_tested = []\<rparr>"
  by (simp add: any_iteration_def descend_any_def initial_state_def example_simps Let_def
      face_loop_any.simps advance_def)

lemma any_step_2:
  "any_iteration binary32_ops (example_config (Suc 0) p) example_scene one_low_ballot
      \<lparr>st_ray = example_ray, st_hit = h, st_node_group = (1, 0xC0000003),
        st_stack = [(0, 1)], st_ballots = Suc (Suc 0), st_tested = []\<rparr>
    = Fault StackOverrun"
  by (simp add: any_iteration_def descend_any_def example_simps Let_def)

lemma closest_step_1:
  "closest_iteration binary32_ops (example_config (Suc 0) True) example_scene one_low_ballot
      (initial_state example_ray h)
    = Next \<lparr>st_ray = example_ray, st_hit = h, st_node_group = (1, 0xC0000003),
        st_stack = [(0, 1)], st_ballots = Suc (Suc 0), st_tested = []\<rparr>"
  by (simp add: closest_iteration_def descend_closest_def initial_state_def example_simps Let_def
      face_loop_closest.simps advance_def)

lemma closest_step_2:
  "closest_iteration binary32_ops (example_config (Suc 0) True) example_scene one_low_ballot
      \<lparr>st_ray = example_ray, st_hit = h, st_node_group = (1, 0xC0000003),
        st_stack = [(0, 1)], st_ballots = Suc (Suc 0), st_tested = []\<rparr>
    = Fault AssertFailed"
  by (simp add: closest_iteration_def descend_closest_def example_simps Let_def)

lemma find_hit_closest_assert:
  "find_hit_closest binary32_ops (example_config 1 True) example_scene one_low_ballot 2 example_ray h
    = Some (Fault AssertFailed)"
  by (simp add: find_hit_closest_def numeral_2_eq_2 closest_step_1 closest_step_2)


lemma iterate_numeral:
  "iterate body (numeral k) st =
    (case body st of Next st' \<Rightarrow> iterate body (pred_numeral k) st' | r \<Rightarrow> Some r)"
  by (simp add: numeral_eq_Suc)




subsection \<open>The stack of \<open>find_hit_closest\<close>\<close>

lemma face_loop_closest_fault:
  "face_loop_closest ops cfg sc ballot c face_group st = Inl f \<Longrightarrow> f = AssertFailed"
proof (induction "unat (snd face_group)" arbitrary: face_group st rule: less_induct)
  case less
  show ?case
  proof (cases "snd face_group = 0")
    case True
    with less.prems show ?thesis
      by (simp add: face_loop_closest.simps)
  next
    case False
    then have m: "unat (clear_msb (snd face_group)) < unat (snd face_group)"
      by (rule clear_msb_less)
    note IH = less.hyps [of "(fst face_group, clear_msb (snd face_group))", simplified, OF m]
    from less.prems False show ?thesis
      by (subst (asm) face_loop_closest.simps)
        (auto simp: Let_def split: if_splits option.splits dest: IH)
  qed
qed

lemma closest_iteration_no_overrun:
  "closest_iteration ops cfg sc ballot st \<noteq> Fault StackOverrun"
  by (auto simp: closest_iteration_def descend_closest_def advance_def Let_def
      split: sum.splits prod.splits if_splits dest: face_loop_closest_fault)

lemma iterate_closest_no_overrun:
  "iterate (closest_iteration ops cfg sc ballot) n st \<noteq> Some (Fault StackOverrun)"
proof (induction n arbitrary: st)
  case 0
  show ?case by simp
next
  case (Suc n)
  show ?case
    using Suc [of "case closest_iteration ops cfg sc ballot st of Next s \<Rightarrow> s"]
      closest_iteration_no_overrun [of ops cfg sc ballot st]
    by (cases "closest_iteration ops cfg sc ballot st") auto
qed

lemma find_hit_closest_no_overrun:
  "find_hit_closest ops cfg sc ballot fuel ray hit \<noteq> Some (Fault StackOverrun)"
  unfolding find_hit_closest_def by (rule iterate_closest_no_overrun)

text \<open>
  C2. In \<open>find_hit_closest\<close> both pushes stand behind
  \<open>ASSERT(stack_size < MAX_STACK_SIZE)\<close> (lemma \<open>find_hit_closest_no_overrun\<close>: the
  query never stores past the end of the stack, and on the input below it stops in the
  \<open>ASSERT\<close>, lemma \<open>find_hit_closest_assert\<close>). In \<open>find_hit_any\<close> neither the push
  of a node group nor the push of a postponed face group is preceded by a check. On the
  scene of three nodes with \<open>MAX_STACK_SIZE = 1\<close>, when the second ballot finds a single
  lane, the first iteration postpones the face group of the root into \<open>stack[0]\<close>, and
  the second iteration stores the rest of the node group of the root to \<open>stack[1]\<close>, past
  the end of the array, whether \<open>TRIANGLE_POSTPONING\<close> is defined or not.
\<close>

theorem find_hit_any_stack_overrun:
  "find_hit_any binary32_ops (example_config 1 p) example_scene one_low_ballot 2 example_ray
    = Some (Fault StackOverrun)"
  by (simp add: find_hit_any_def iterate_numeral any_step_1 any_step_2)

subsection \<open>Postponement that never triggers\<close>



text \<open>The two builds of the kernel: \<open>TRIANGLE_POSTPONING\<close> defined, and not defined.\<close>

definition postponing :: "'f kernel_config \<Rightarrow> 'f kernel_config" where
  "postponing cfg = cfg\<lparr>TRIANGLE_POSTPONING := True\<rparr>"

definition plain :: "'f kernel_config \<Rightarrow> 'f kernel_config" where
  "plain cfg = cfg\<lparr>TRIANGLE_POSTPONING := False\<rparr>"


lemma build_simps:
  "postpone_threshold ops (postponing cfg) c = postpone_threshold ops cfg c"
  "postpone_threshold ops (plain cfg) c = postpone_threshold ops cfg c"
  "face_test ops (postponing cfg) sc ray i = face_test ops cfg sc ray i"
  "face_test ops (plain cfg) sc ray i = face_test ops cfg sc ray i"
  "MAX_STACK_SIZE (postponing cfg) = MAX_STACK_SIZE cfg"
  "MAX_STACK_SIZE (plain cfg) = MAX_STACK_SIZE cfg"
  "TRIANGLE_POSTPONING (postponing cfg)" "\<not> TRIANGLE_POSTPONING (plain cfg)"
  by (simp_all add: postponing_def plain_def postpone_threshold_def face_test_def test_face_def)











text \<open>
  \<open>find_hit_any\<close> has no \<open>#ifdef\<close>: it postpones in either build.
\<close>

lemma face_loop_any_builds:
  "face_loop_any ops (postponing cfg) sc ballot c face_group st
    = face_loop_any ops (plain cfg) sc ballot c face_group st"
proof (induction "unat (snd face_group)" arbitrary: face_group st rule: less_induct)
  case less
  show ?case
  proof (cases "snd face_group = 0")
    case True
    then show ?thesis
      by (simp add: face_loop_any.simps)
  next
    case False
    then have m: "unat (clear_msb (snd face_group)) < unat (snd face_group)"
      by (rule clear_msb_less)
    note IH = less.hyps [of "(fst face_group, clear_msb (snd face_group))", simplified, OF m]
    note e1 = face_loop_any.simps [of ops "postponing cfg" sc ballot c face_group st]
    note e2 = face_loop_any.simps [of ops "plain cfg" sc ballot c face_group st]
    show ?thesis
      unfolding e1 e2 using False
      by (simp add: build_simps Let_def IH split: option.splits)
  qed
qed

lemma find_hit_any_builds:
  "find_hit_any ops (postponing cfg) sc ballot fuel ray = find_hit_any ops (plain cfg) sc ballot fuel ray"
proof -
  have "any_iteration ops (postponing cfg) sc ballot = any_iteration ops (plain cfg) sc ballot"
    by (rule ext)
      (simp add: any_iteration_def descend_any_def build_simps Let_def face_loop_any_builds
        split: sum.splits prod.splits cong: if_cong)
  then show ?thesis
    by (simp add: find_hit_any_def)
qed




subsection \<open>The faces tested and the hits recorded\<close>



text \<open>
  The log \<open>st_tested\<close> read back. \<open>ray_after\<close> and \<open>hit_after\<close> are the ray and the hit
  of \<open>find_hit_closest\<close> after the tests of a log: every hit overwrites \<open>ray.tmax\<close>,
  \<open>hit.bc\<close> and \<open>hit.face_idx\<close>. \<open>closest_tests\<close> says that the log is what
  \<open>test_face\<close> returns for its faces, one after the other, each with the ray as the
  hits before it have left it. \<open>hit_distances\<close> and \<open>hit_faces\<close> are the \<open>t\<close> and the
  face index of the tests that hit.
\<close>

type_synonym 'f test_log = "(32 word \<times> ('f \<times> 'f vec2) option) list"

definition ray_hit :: "'f RayInfo \<Rightarrow> ('f \<times> 'f vec2) option \<Rightarrow> 'f RayInfo" where
  "ray_hit ray r = (case r of None \<Rightarrow> ray | Some (t, b) \<Rightarrow> ray\<lparr>tmax := t\<rparr>)"


fun ray_after :: "'f RayInfo \<Rightarrow> 'f test_log \<Rightarrow> 'f RayInfo" where
  "ray_after ray [] = ray"
| "ray_after ray ((i, r) # es) = ray_after (ray_hit ray r) es"










lemma ray_after_fixed:
  "origin (ray_after ray es) = origin ray" "dir (ray_after ray es) = dir ray"
  by (induction ray es rule: ray_after.induct) (simp_all add: ray_hit_def split: option.splits)





subsection \<open>The invariant of \<open>find_hit_closest\<close>\<close>










subsection \<open>The invariant of \<open>find_hit_any\<close>\<close>





















end
